theory Spec2Isabelle
  imports Main
begin

section \<open>The resilient request dispatcher of \<^verbatim>\<open>frontend/src/api/apiConfig.js\<close>\<close>

text \<open>
  The module keeps three module-level stores (\<^verbatim>\<open>circuitBreakers\<close>, \<^verbatim>\<open>recentCalls\<close>,
  \<^verbatim>\<open>responseCache\<close>) and installs a request interceptor and a response interceptor on one
  axios instance. The stores become one record that every function takes and returns;
  \<^verbatim>\<open>Date.now()\<close> becomes an explicit argument (all readings inside one synchronous
  stretch of code are taken to be equal); a thrown value is the left summand of a sum.
  Request headers and the token provider are not part of the model.
\<close>

subsection \<open>Constants\<close>

definition THROTTLE_WINDOW :: int where
  "THROTTLE_WINDOW = 1000"

definition MAX_CALLS_PER_WINDOW :: nat where
  "MAX_CALLS_PER_WINDOW = 10"

definition CIRCUIT_BREAKER_THRESHOLD :: nat where
  "CIRCUIT_BREAKER_THRESHOLD = 5"

definition CIRCUIT_BREAKER_TIMEOUT :: int where
  "CIRCUIT_BREAKER_TIMEOUT = 30000"

definition RETRY_ATTEMPTS :: nat where
  "RETRY_ATTEMPTS = 3"

definition RETRY_DELAY :: int where
  "RETRY_DELAY = 1000"

definition CACHE_TTL :: int where
  "CACHE_TTL = 5 * 60 * 1000"

lemmas dispatcher_constants =
  THROTTLE_WINDOW_def MAX_CALLS_PER_WINDOW_def CIRCUIT_BREAKER_THRESHOLD_def
  CIRCUIT_BREAKER_TIMEOUT_def RETRY_ATTEMPTS_def RETRY_DELAY_def CACHE_TTL_def

subsection \<open>Data\<close>

datatype circuit_state = CLOSED | OPEN | HALF_OPEN

text \<open>A breaker object; \<^verbatim>\<open>null\<close> timestamps are \<open>None\<close>.\<close>

record breaker =
  state :: circuit_state
  failureCount :: nat
  lastFailureTime :: "int option"
  lastSuccessTime :: "int option"

text \<open>
  Response bodies are JSON objects, kept as association lists in property order.
  \<open>JTime t\<close> stands for the ISO string that \<^verbatim>\<open>new Date().toISOString()\<close> gives at instant \<open>t\<close>.
\<close>

datatype json =
    JBool bool
  | JNum int
  | JStr string
  | JTime int
  | JArr "json list"
  | JObj "(string \<times> json) list"

type_synonym payload = "(string \<times> json) list"

datatype http_method = GET | POST | PUT | DELETE | PATCH

text \<open>The request config; \<open>req_method\<close> is its \<^verbatim>\<open>method\<close> property.\<close>

record config =
  url :: string
  req_method :: "http_method option"

text \<open>
  A response as the caller sees it. \<open>data = None\<close> is a falsy (absent, empty) body;
  a field the source leaves out of an object literal is \<open>None\<close>.
\<close>

record response =
  data :: "payload option"
  status :: "nat option"
  statusText :: "string option"
  rconfig :: "config option"

text \<open>An entry of \<^verbatim>\<open>recentCalls\<close>.\<close>

record call_window =
  time :: int
  count :: nat
  lastResponse :: "payload option"

text \<open>An entry of \<^verbatim>\<open>responseCache\<close>: \<^verbatim>\<open>{ data, timestamp }\<close>.\<close>

record cache_entry =
  cached_data :: payload
  timestamp :: int

record dispatcher =
  circuitBreakers :: "string \<rightharpoonup> breaker"
  recentCalls :: "string \<rightharpoonup> call_window"
  responseCache :: "string \<rightharpoonup> cache_entry"

text \<open>
  What reaches the rejected handler of the response interceptor: the object
  \<^verbatim>\<open>{ __MOCK_RESPONSE__: r }\<close> or the \<^verbatim>\<open>axios.Cancel\<close> thrown by the request
  interceptor (neither has \<^verbatim>\<open>config\<close>, \<^verbatim>\<open>response\<close> or \<^verbatim>\<open>request\<close>), or an error of
  the HTTP client, which carries the request's config, has \<^verbatim>\<open>request\<close> set, and has
  \<^verbatim>\<open>response\<close> when the server answered.
\<close>

datatype error =
    MockResponse response
  | Cancel string
  | AxiosError config "response option"

datatype error_type =
  NETWORK | AUTHENTICATION | AUTHORIZATION | VALIDATION | SERVER | CLIENT | UNKNOWN

text \<open>The \<^verbatim>\<open>enhancedError\<close> the response interceptor rejects with.\<close>

record api_error =
  etype :: error_type
  estatus :: "nat option"
  eendpoint :: "string option"
  emethod :: http_method
  circuitState :: "circuit_state option"
  fallbackAttempted :: bool
  original :: error

datatype result = Resolved response | Rejected api_error

text \<open>
  The network, seen from the dispatcher: what the server answers to the live call number
  \<open>i\<close> of one dispatch (\<open>0\<close> is the call of the instance itself, \<open>1, 2, 3\<close> are the attempts
  of \<^verbatim>\<open>retryRequest\<close>). \<open>Reply s phrase d\<close> is an answer with status \<open>s\<close>, reason phrase
  \<open>phrase\<close> and body \<open>d\<close>; \<open>NoReply\<close> is a transport failure.
\<close>

datatype reply = Reply nat string "payload option" | NoReply

subsection \<open>Helpers\<close>

fun method_name :: "http_method \<Rightarrow> string" where
  "method_name GET = ''GET''"
| "method_name POST = ''POST''"
| "method_name PUT = ''PUT''"
| "method_name DELETE = ''DELETE''"
| "method_name PATCH = ''PATCH''"

text \<open>\<^verbatim>\<open>config.method?.toUpperCase() || 'GET'\<close>\<close>

definition method_of :: "config \<Rightarrow> http_method" where
  "method_of cfg = (case req_method cfg of None \<Rightarrow> GET | Some m \<Rightarrow> m)"

text \<open>\<^verbatim>\<open>`${method}:${endpoint}`\<close>\<close>

definition cacheKey :: "http_method \<Rightarrow> string \<Rightarrow> string" where
  "cacheKey m endpoint = method_name m @ '':'' @ endpoint"

text \<open>\<^verbatim>\<open>{ ...obj, k: v }\<close>: an existing property keeps its place, a new one goes last.\<close>

fun set_prop :: "string \<Rightarrow> json \<Rightarrow> payload \<Rightarrow> payload" where
  "set_prop k v [] = [(k, v)]"
| "set_prop k v ((k', v') # ps) =
     (if k' = k then (k, v) # ps else (k', v') # set_prop k v ps)"

fun startsWith :: "string \<Rightarrow> string \<Rightarrow> bool" where
  "startsWith s [] = True"
| "startsWith [] (k # ks) = False"
| "startsWith (c # cs) (k # ks) = (c = k \<and> startsWith cs ks)"

fun includes_str :: "string \<Rightarrow> string \<Rightarrow> bool" where
  "includes_str [] k = (k = [])"
| "includes_str (c # cs) k = (startsWith (c # cs) k \<or> includes_str cs k)"

text \<open>
  The keys of the stores are the paths that the call sites give the instance
  (\<^verbatim>\<open>API.get("/settings")\<close>, \<^verbatim>\<open>apiConfig.post("/expenses", ...)\<close>, ...): every one of them
  begins with a slash. Such a key is not the empty string, which the rejected handler
  takes for no endpoint at all (\<^verbatim>\<open>if (endpoint)\<close>), and it is not the name of a member of
  \<^verbatim>\<open>Object.prototype\<close>, which a lookup in a plain object finds without any entry having
  been stored.
\<close>

definition endpoint_path :: "string \<Rightarrow> bool" where
  "endpoint_path p = startsWith p ''/''"

definition object_prototype_members :: "string list" where
  "object_prototype_members =
     [''constructor'', ''__defineGetter__'', ''__defineSetter__'', ''hasOwnProperty'',
      ''__lookupGetter__'', ''__lookupSetter__'', ''isPrototypeOf'', ''propertyIsEnumerable'',
      ''toString'', ''valueOf'', ''__proto__'', ''toLocaleString'']"

definition new_breaker :: breaker where
  "new_breaker =
     \<lparr>state = CLOSED, failureCount = 0, lastFailureTime = None, lastSuccessTime = None\<rparr>"

text \<open>
  \<^verbatim>\<open>getCircuitBreaker\<close> returns a reference into \<^verbatim>\<open>circuitBreakers\<close>; the model returns
  the breaker and the store with the lazily created entry, and \<open>put_breaker\<close> is a write
  through that reference.

  The map \<open>circuitBreakers\<close> holds the own properties of the source's plain object. That is
  what \<^verbatim>\<open>circuitBreakers[endpoint]\<close> reads for every key but the names of the members of
  \<^verbatim>\<open>Object.prototype\<close> (\<open>object_prototype_members\<close> above): for such a key the source
  finds the inherited member, creates no breaker, and counts nothing. No endpoint path is
  such a key, and the function models the source on endpoint paths.
\<close>

definition getCircuitBreaker :: "dispatcher \<Rightarrow> string \<Rightarrow> breaker \<times> dispatcher" where
  "getCircuitBreaker st endpoint =
     (case circuitBreakers st endpoint of
        None \<Rightarrow> (new_breaker, st\<lparr>circuitBreakers := (circuitBreakers st)(endpoint \<mapsto> new_breaker)\<rparr>)
      | Some b \<Rightarrow> (b, st))"

definition put_breaker :: "dispatcher \<Rightarrow> string \<Rightarrow> breaker \<Rightarrow> dispatcher" where
  "put_breaker st endpoint b = st\<lparr>circuitBreakers := (circuitBreakers st)(endpoint \<mapsto> b)\<rparr>"

text \<open>\<^verbatim>\<open>Date.now() - null\<close> is \<^verbatim>\<open>Date.now()\<close>.\<close>

definition shouldAttemptReset :: "int \<Rightarrow> breaker \<Rightarrow> bool" where
  "shouldAttemptReset now b =
     (state b = OPEN \<and>
      now - (case lastFailureTime b of None \<Rightarrow> 0 | Some t \<Rightarrow> t) > CIRCUIT_BREAKER_TIMEOUT)"

definition getCachedResponse :: "dispatcher \<Rightarrow> int \<Rightarrow> string \<Rightarrow> payload option" where
  "getCachedResponse st now key =
     (case responseCache st key of
        None \<Rightarrow> None
      | Some cached \<Rightarrow>
          if now - timestamp cached < CACHE_TTL
          then Some (set_prop ''cacheAge'' (JNum (now - timestamp cached))
                      (set_prop ''fromCache'' (JBool True) (cached_data cached)))
          else None)"

definition cacheResponse :: "dispatcher \<Rightarrow> int \<Rightarrow> string \<Rightarrow> payload \<Rightarrow> dispatcher" where
  "cacheResponse st now key d =
     st\<lparr>responseCache := (responseCache st)(key \<mapsto> \<lparr>cached_data = d, timestamp = now\<rparr>)\<rparr>"

definition fallbackData :: "(string \<times> payload) list" where
  "fallbackData =
     [(''/settings'',
        [(''success'', JBool True), (''data'', JArr []),
         (''message'', JStr ''Using cached settings data'')]),
      (''/expenses'',
        [(''success'', JBool True), (''data'', JArr []),
         (''pagination'', JObj [(''page'', JNum 1), (''limit'', JNum 10), (''total'', JNum 0)]),
         (''message'', JStr ''Using cached expenses data'')]),
      (''/budgets'',
        [(''success'', JBool True), (''data'', JArr []),
         (''pagination'', JObj [(''page'', JNum 1), (''limit'', JNum 10), (''total'', JNum 0)]),
         (''message'', JStr ''Using cached budgets data'')])]"

definition getFallbackResponse :: "int \<Rightarrow> string \<Rightarrow> http_method \<Rightarrow> response" where
  "getFallbackResponse now endpoint m =
     (case find (\<lambda>(key, _). includes_str endpoint key \<or> startsWith endpoint key) fallbackData of
        Some (_, canned) \<Rightarrow>
          \<lparr>data = Some (set_prop ''timestamp'' (JTime now)
                    (set_prop ''endpoint'' (JStr endpoint)
                      (set_prop ''fallback'' (JBool True) canned))),
           status = Some 200,
           statusText = Some ''OK (Fallback)'',
           rconfig = Some \<lparr>url = endpoint, req_method = Some m\<rparr>\<rparr>
      | None \<Rightarrow>
          \<lparr>data = Some [(''success'', JBool False),
                        (''message'', JStr ''Service temporarily unavailable. Please try again later.''),
                        (''fallback'', JBool True),
                        (''endpoint'', JStr endpoint),
                        (''timestamp'', JTime now)],
           status = Some 503,
           statusText = Some ''Service Unavailable (Fallback)'',
           rconfig = Some \<lparr>url = endpoint, req_method = Some m\<rparr>\<rparr>)"

subsection \<open>The live call and the retry loop\<close>

text \<open>
  One call of the HTTP client: it resolves for a status from 200 to 299 (the client's
  default \<^verbatim>\<open>validateStatus\<close>) and rejects otherwise.
\<close>

definition send :: "(nat \<Rightarrow> reply) \<Rightarrow> config \<Rightarrow> nat \<Rightarrow> error + response" where
  "send net cfg i =
     (case net i of
        NoReply \<Rightarrow> Inl (AxiosError cfg None)
      | Reply s phrase d \<Rightarrow>
          let r = \<lparr>data = d, status = Some s, statusText = Some phrase, rconfig = Some cfg\<rparr>
          in if 200 \<le> s \<and> s < 300 then Inr r else Inl (AxiosError cfg (Some r)))"

text \<open>\<^verbatim>\<open>error.response?.status\<close>\<close>

fun response_status :: "error \<Rightarrow> nat option" where
  "response_status (AxiosError cfg (Some r)) = status r"
| "response_status _ = None"

text \<open>\<^verbatim>\<open>error.response?.status >= 500\<close>: a comparison with \<^verbatim>\<open>undefined\<close> is false.\<close>

definition status_ge_500 :: "error \<Rightarrow> bool" where
  "status_ge_500 e = (case response_status e of None \<Rightarrow> False | Some s \<Rightarrow> s \<ge> 500)"

definition status_lt_600 :: "error \<Rightarrow> bool" where
  "status_lt_600 e = (case response_status e of None \<Rightarrow> False | Some s \<Rightarrow> s < 600)"

text \<open>
  \<^verbatim>\<open>retryRequest(config, attempt)\<close> calls the bare client, not the instance, so neither
  interceptor runs on its calls. It returns the outcome and the number of the last
  attempt it made. The suspension between attempts changes no store.
\<close>

function retryRequest :: "(nat \<Rightarrow> reply) \<Rightarrow> config \<Rightarrow> nat \<Rightarrow> (error + response) \<times> nat" where
  "retryRequest net cfg attempt =
     (case send net cfg attempt of
        Inr r \<Rightarrow> (Inr r, attempt)
      | Inl e \<Rightarrow>
          if attempt < RETRY_ATTEMPTS \<and> status_ge_500 e \<and> status_lt_600 e
          then retryRequest net cfg (attempt + 1)
          else (Inl e, attempt))"
  by pat_completeness auto
termination
  by (relation "measure (\<lambda>(net, cfg, attempt). RETRY_ATTEMPTS - attempt)") auto

declare retryRequest.simps [simp del]

text \<open>
  The suspension after the failed attempt number \<open>attempt\<close>:
  \<^verbatim>\<open>RETRY_DELAY * Math.pow(2, attempt - 1)\<close>.
\<close>

definition retry_delay :: "nat \<Rightarrow> int" where
  "retry_delay attempt = RETRY_DELAY * 2 ^ (attempt - 1)"

text \<open>
  How the live call of one dispatch ends once the retries are over: the reply to the
  instance's own call, unless that is a 5xx error, which the rejected handler hands to
  \<^verbatim>\<open>retryRequest\<close>.
\<close>

definition live_outcome :: "(nat \<Rightarrow> reply) \<Rightarrow> config \<Rightarrow> error + response" where
  "live_outcome net cfg =
     (case send net cfg 0 of
        Inr r \<Rightarrow> Inr r
      | Inl e \<Rightarrow>
          if status_ge_500 e \<and> status_lt_600 e then fst (retryRequest net cfg 1) else Inl e)"

subsection \<open>The request interceptor\<close>

text \<open>
  The interceptor has three parts, run in this order; each either throws (\<open>Some\<close>) or
  falls through (\<open>None\<close>). First the breaker check.
\<close>

definition check_circuit :: "dispatcher \<Rightarrow> int \<Rightarrow> config \<Rightarrow> error option \<times> dispatcher" where
  "check_circuit st now cfg =
     (let endpoint = url cfg;
          m = method_of cfg;
          (b, st1) = getCircuitBreaker st endpoint
      in if state b = OPEN then
           if shouldAttemptReset now b
           then (None, put_breaker st1 endpoint (b\<lparr>state := HALF_OPEN\<rparr>))
           else (case getCachedResponse st1 now (cacheKey m endpoint) of
                   Some cachedResponse \<Rightarrow>
                     (Some (MockResponse
                        \<lparr>data = Some cachedResponse, status = Some 200,
                         statusText = Some ''OK (Cached)'', rconfig = Some cfg\<rparr>), st1)
                 | None \<Rightarrow>
                     (Some (MockResponse (getFallbackResponse now endpoint m)), st1))
         else (None, st1))"

text \<open>The throttle: \<^verbatim>\<open>recentCalls[endpoint].count++\<close> happens before the limit is tested.\<close>

definition throttle :: "dispatcher \<Rightarrow> int \<Rightarrow> config \<Rightarrow> error option \<times> dispatcher" where
  "throttle st now cfg =
     (let endpoint = url cfg;
          m = method_of cfg
      in case recentCalls st endpoint of
           None \<Rightarrow>
             (None, st\<lparr>recentCalls := (recentCalls st)
                         (endpoint \<mapsto> \<lparr>time = now, count = 1, lastResponse = None\<rparr>)\<rparr>)
         | Some w \<Rightarrow>
             if now - time w < THROTTLE_WINDOW then
               let w1 = w\<lparr>count := count w + 1\<rparr>;
                   st1 = st\<lparr>recentCalls := (recentCalls st)(endpoint \<mapsto> w1)\<rparr>
               in if count w1 > MAX_CALLS_PER_WINDOW then
                    (case getCachedResponse st1 now (cacheKey m endpoint) of
                       Some cachedResponse \<Rightarrow>
                         (Some (MockResponse
                            \<lparr>data = Some cachedResponse, status = Some 200,
                             statusText = Some ''OK (Cached)'', rconfig = Some cfg\<rparr>), st1)
                     | None \<Rightarrow>
                         (case lastResponse w1 of
                            Some p \<Rightarrow>
                              (Some (MockResponse
                                 \<lparr>data = Some p, status = Some 200,
                                  statusText = Some ''OK (Throttled Cache)'', rconfig = Some cfg\<rparr>), st1)
                          | None \<Rightarrow>
                              (Some (Cancel (''Circuit breaker: Too many calls to '' @ endpoint)), st1)))
                  else (None, st1)
             else
               (None, st\<lparr>recentCalls := (recentCalls st)
                           (endpoint \<mapsto> \<lparr>time = now, count = 1, lastResponse = None\<rparr>)\<rparr>))"

text \<open>The deprecated endpoint: the mock response has a body and nothing else.\<close>

definition deprecated_response :: response where
  "deprecated_response =
     \<lparr>data = Some [(''success'', JBool True), (''data'', JArr []),
                   (''message'', JStr ''Deprecated endpoint - use /settings instead'')],
      status = None, statusText = None, rconfig = None\<rparr>"

definition check_deprecated :: "config \<Rightarrow> error option" where
  "check_deprecated cfg =
     (if url cfg = ''/settings/defaults'' then Some (MockResponse deprecated_response) else None)"

definition request_interceptor :: "dispatcher \<Rightarrow> int \<Rightarrow> config \<Rightarrow> (error + config) \<times> dispatcher" where
  "request_interceptor st now cfg =
     (case check_circuit st now cfg of
        (Some thrown, st1) \<Rightarrow> (Inl thrown, st1)
      | (None, st1) \<Rightarrow>
          (case throttle st1 now cfg of
             (Some thrown, st2) \<Rightarrow> (Inl thrown, st2)
           | (None, st2) \<Rightarrow>
               (case check_deprecated cfg of
                  Some thrown \<Rightarrow> (Inl thrown, st2)
                | None \<Rightarrow> (Inr cfg, st2))))"

subsection \<open>The response interceptor\<close>

text \<open>
  The fulfilled handler. \<open>cfg\<close> is \<^verbatim>\<open>response.config\<close>, the config of the request that
  was sent.
\<close>

definition response_success :: "dispatcher \<Rightarrow> int \<Rightarrow> config \<Rightarrow> response \<Rightarrow> response \<times> dispatcher" where
  "response_success st now cfg r =
     (let endpoint = url cfg;
          m = method_of cfg;
          (b, st1) = getCircuitBreaker st endpoint;
          st2 = (if state b = HALF_OPEN
                 then put_breaker st1 endpoint
                        (b\<lparr>state := CLOSED, failureCount := 0, lastSuccessTime := Some now\<rparr>)
                 else if state b = CLOSED
                 then put_breaker st1 endpoint (b\<lparr>failureCount := 0, lastSuccessTime := Some now\<rparr>)
                 else st1);
          st3 = (case data r of
                   Some d \<Rightarrow>
                     if m = GET \<and> status r = Some 200
                     then cacheResponse st2 now (cacheKey m endpoint) d
                     else st2
                 | None \<Rightarrow> st2);
          st4 = (case recentCalls st3 endpoint of
                   Some w \<Rightarrow> st3\<lparr>recentCalls := (recentCalls st3)(endpoint \<mapsto> w\<lparr>lastResponse := data r\<rparr>)\<rparr>
                 | None \<Rightarrow> st3)
      in (r, st4))"

fun error_config :: "error \<Rightarrow> config option" where
  "error_config (AxiosError cfg r) = Some cfg"
| "error_config _ = None"

text \<open>\<^verbatim>\<open>!error.response && error.request\<close>\<close>

fun isNetworkError :: "error \<Rightarrow> bool" where
  "isNetworkError (AxiosError cfg None) = True"
| "isNetworkError _ = False"

text \<open>\<^verbatim>\<open>!error.response\<close>\<close>

fun no_response :: "error \<Rightarrow> bool" where
  "no_response (AxiosError cfg (Some r)) = False"
| "no_response _ = True"

text \<open>The type that \<^verbatim>\<open>parseError\<close> of \<^verbatim>\<open>utils/errorHandler.js\<close> gives the error.\<close>

fun parseError :: "error \<Rightarrow> error_type" where
  "parseError (AxiosError cfg (Some r)) =
     (case status r of
        None \<Rightarrow> UNKNOWN
      | Some s \<Rightarrow>
          if s = 401 then AUTHENTICATION
          else if s = 403 then AUTHORIZATION
          else if 400 \<le> s \<and> s < 500 then VALIDATION
          else if s \<ge> 500 then SERVER
          else UNKNOWN)"
| "parseError (AxiosError cfg None) = NETWORK"
| "parseError (Cancel msg) = (if msg \<noteq> [] then CLIENT else UNKNOWN)"
| "parseError (MockResponse r) = UNKNOWN"

text \<open>
  The rejected handler, in the order of the source: the breaker update (skipped when
  \<^verbatim>\<open>error.config?.url\<close> is undefined or the empty string), the retries, the fallback
  strategies, the enhanced error.
\<close>

definition update_breaker_on_error :: "dispatcher \<Rightarrow> int \<Rightarrow> error \<Rightarrow> dispatcher" where
  "update_breaker_on_error st now err =
     (case error_config err of
        None \<Rightarrow> st
      | Some cfg \<Rightarrow>
          if url cfg = [] then st
          else
            let (b, st1) = getCircuitBreaker st (url cfg)
            in if status_ge_500 err \<or> isNetworkError err then
                 let b1 = b\<lparr>failureCount := failureCount b + 1, lastFailureTime := Some now\<rparr>
                 in put_breaker st1 (url cfg)
                      (if failureCount b1 \<ge> CIRCUIT_BREAKER_THRESHOLD then b1\<lparr>state := OPEN\<rparr> else b1)
               else st1)"

text \<open>
  \<open>err0\<close> is the error the handler was entered with (it fixes \<^verbatim>\<open>endpoint\<close>, \<^verbatim>\<open>method\<close>
  and \<^verbatim>\<open>cacheKey\<close>), \<open>err\<close> the error after the retries.
\<close>

definition fallback_strategies :: "dispatcher \<Rightarrow> int \<Rightarrow> error \<Rightarrow> error \<Rightarrow> response option" where
  "fallback_strategies st now err0 err =
     (case error_config err0 of
        None \<Rightarrow> None
      | Some cfg \<Rightarrow>
          if url cfg \<noteq> [] \<and> (status_ge_500 err \<or> no_response err) then
            (case getCachedResponse st now (cacheKey (method_of cfg) (url cfg)) of
               Some cachedResponse \<Rightarrow>
                 Some \<lparr>data = Some cachedResponse, status = Some 200,
                       statusText = Some ''OK (Cached Fallback)'', rconfig = error_config err\<rparr>
             | None \<Rightarrow>
                 if method_of cfg = GET
                 then Some (getFallbackResponse now (url cfg) (method_of cfg))
                 else None)
          else None)"

definition enhancedError :: "dispatcher \<Rightarrow> error \<Rightarrow> error \<Rightarrow> api_error \<times> dispatcher" where
  "enhancedError st err0 err =
     (case error_config err0 of
        None \<Rightarrow>
          (\<lparr>etype = parseError err, estatus = response_status err, eendpoint = None,
            emethod = GET, circuitState = None, fallbackAttempted = True, original = err\<rparr>, st)
      | Some cfg \<Rightarrow>
          if url cfg = [] then
            (\<lparr>etype = parseError err, estatus = response_status err, eendpoint = Some (url cfg),
              emethod = method_of cfg, circuitState = None, fallbackAttempted = True,
              original = err\<rparr>, st)
          else
            let (b, st1) = getCircuitBreaker st (url cfg)
            in (\<lparr>etype = parseError err, estatus = response_status err, eendpoint = Some (url cfg),
                 emethod = method_of cfg, circuitState = Some (state b), fallbackAttempted = True,
                 original = err\<rparr>, st1))"

text \<open>
  What one dispatch gives: the settled promise, the stores, and the number of live calls
  that went to the network.
\<close>

record outcome =
  returned :: result
  store :: dispatcher
  liveCalls :: nat

definition settle :: "dispatcher \<Rightarrow> int \<Rightarrow> error \<Rightarrow> error \<Rightarrow> nat \<Rightarrow> outcome" where
  "settle st now err0 err n =
     (case fallback_strategies st now err0 err of
        Some r \<Rightarrow> \<lparr>returned = Resolved r, store = st, liveCalls = n\<rparr>
      | None \<Rightarrow>
          let (e, st1) = enhancedError st err0 err
          in \<lparr>returned = Rejected e, store = st1, liveCalls = n\<rparr>)"

text \<open>
  \<open>now\<close> is the clock when the handler starts, \<open>later\<close> the clock once the retries are
  over. \<open>liveCalls\<close> counts the calls of \<^verbatim>\<open>retryRequest\<close>.
\<close>

definition response_error :: "dispatcher \<Rightarrow> int \<Rightarrow> int \<Rightarrow> (nat \<Rightarrow> reply) \<Rightarrow> error \<Rightarrow> outcome" where
  "response_error st now later net err =
     (case err of
        MockResponse r \<Rightarrow> \<lparr>returned = Resolved r, store = st, liveCalls = 0\<rparr>
      | _ \<Rightarrow>
          let st1 = update_breaker_on_error st now err
          in (case error_config err of
                Some cfg \<Rightarrow>
                  if status_ge_500 err \<and> status_lt_600 err then
                    (case retryRequest net cfg 1 of
                       (Inr retryResponse, n) \<Rightarrow>
                         \<lparr>returned = Resolved retryResponse, store = st1, liveCalls = n\<rparr>
                     | (Inl retryError, n) \<Rightarrow> settle st1 later err retryError n)
                  else settle st1 later err err 0
              | None \<Rightarrow> settle st1 later err err 0))"

subsection \<open>One dispatch\<close>

record clock =
  t_request :: int
  t_response :: int
  t_settled :: int

text \<open>
  A request through the instance while no other request is in flight: the request
  interceptor, then (unless it threw) the live call and the fulfilled or rejected handler,
  with nothing else touching the stores in between. A value thrown by the request
  interceptor goes to the rejected handler.

  The program can have several requests in flight. Then the interceptor and the handler of
  one request are still each run in one piece, but the handlers of other requests may run
  between them, and the store a handler finds need not be the store the interceptor left.
  What a handler does is therefore stated below for \<open>response_success\<close> and
  \<open>response_error\<close> on an arbitrary store; \<open>dispatch\<close> is their composition for a request
  that is alone.
\<close>

definition dispatch :: "dispatcher \<Rightarrow> clock \<Rightarrow> (nat \<Rightarrow> reply) \<Rightarrow> config \<Rightarrow> outcome" where
  "dispatch st clk net cfg =
     (case request_interceptor st (t_request clk) cfg of
        (Inl thrown, st1) \<Rightarrow> response_error st1 (t_response clk) (t_settled clk) net thrown
      | (Inr cfg1, st1) \<Rightarrow>
          (case send net cfg1 0 of
             Inr r \<Rightarrow>
               let (r1, st2) = response_success st1 (t_response clk) cfg1 r
               in \<lparr>returned = Resolved r1, store = st2, liveCalls = 1\<rparr>
           | Inl e \<Rightarrow>
               let out = response_error st1 (t_response clk) (t_settled clk) net e
               in out\<lparr>liveCalls := 1 + liveCalls out\<rparr>))"

definition empty_dispatcher :: dispatcher where
  "empty_dispatcher =
     \<lparr>circuitBreakers = Map.empty, recentCalls = Map.empty, responseCache = Map.empty\<rparr>"

text \<open>
  The breakers of a store are counted when every breaker that is not CLOSED has at least
  \<^verbatim>\<open>CIRCUIT_BREAKER_THRESHOLD\<close> failures on record.
\<close>

definition breakers_counted :: "dispatcher \<Rightarrow> bool" where
  "breakers_counted st =
     (\<forall>ep b. circuitBreakers st ep = Some b \<longrightarrow> state b \<noteq> CLOSED \<longrightarrow>
        CIRCUIT_BREAKER_THRESHOLD \<le> failureCount b)"

subsection \<open>Runs and concrete inputs\<close>

text \<open>
  A run is a sequence of dispatches, each finished before the next starts; every store
  used as a concrete input below is the store after a run from the empty one.
\<close>

fun run :: "dispatcher \<Rightarrow> (clock \<times> (nat \<Rightarrow> reply) \<times> config) list \<Rightarrow> dispatcher" where
  "run st [] = st"
| "run st ((clk, net, cfg) # rs) = run (store (dispatch st clk net cfg)) rs"

text \<open>A server that gives every call the same reply, and one that changes after the first call.\<close>

definition always :: "reply \<Rightarrow> nat \<Rightarrow> reply" where
  "always r i = r"

definition first_then :: "reply \<Rightarrow> reply \<Rightarrow> nat \<Rightarrow> reply" where
  "first_then r0 r i = (if i = 0 then r0 else r)"

text \<open>A dispatch whose handlers all read the same clock value.\<close>

definition instant :: "int \<Rightarrow> clock" where
  "instant t = \<lparr>t_request = t, t_response = t, t_settled = t\<rparr>"

text \<open>\<^verbatim>\<open>API.get(path)\<close>, \<^verbatim>\<open>API.post(path, ...)\<close> and so on.\<close>

definition request :: "http_method \<Rightarrow> string \<Rightarrow> config" where
  "request m path = \<lparr>url = path, req_method = Some m\<rparr>"

text \<open>
  Five dispatches of one request at clock 0 against a server that always answers 503:
  the store in which the breaker of that path has just opened.
\<close>

definition tripped :: "config \<Rightarrow> dispatcher" where
  "tripped cfg =
     run empty_dispatcher
       (replicate 5 (instant 0, always (Reply 503 ''Service Unavailable'' None), cfg))"

text \<open>Ten dispatches of one request at clock 0, each answered \<open>r\<close>: a full throttle window.\<close>

definition window_full :: "config \<Rightarrow> reply \<Rightarrow> dispatcher" where
  "window_full cfg r = run empty_dispatcher (replicate 10 (instant 0, always r, cfg))"

text \<open>
  Two requests in flight: the store once the request interceptor has let \<open>cfg\<close> through
  twice, at clocks \<open>now\<close> and \<open>now + 1\<close>, while neither request has been answered.
\<close>

definition two_in_flight :: "dispatcher \<Rightarrow> int \<Rightarrow> config \<Rightarrow> dispatcher" where
  "two_in_flight st now cfg =
     snd (request_interceptor (snd (request_interceptor st now cfg)) (now + 1) cfg)"

text \<open>The error of the HTTP client for an answer with status \<open>s\<close> and no body.\<close>

definition http_error :: "config \<Rightarrow> nat \<Rightarrow> string \<Rightarrow> error" where
  "http_error cfg s phrase =
     AxiosError cfg
       (Some \<lparr>data = None, status = Some s, statusText = Some phrase, rconfig = Some cfg\<rparr>)"

text \<open>
  \<^verbatim>\<open>GET /settings\<close> succeeds once at clock 0, then is answered 500 five times at
  clock 1000.
\<close>

definition settings_cached_then_down :: dispatcher where
  "settings_cached_then_down =
     run empty_dispatcher
       ((instant 0, always (Reply 200 ''OK'' (Some [(''success'', JBool True)])),
         request GET ''/settings'')
        # replicate 5 (instant 1000, always (Reply 500 ''Internal Server Error'' None),
                       request GET ''/settings''))"

section \<open>Properties\<close>

subsection \<open>What each part reads and writes\<close>

lemma map_of_set_prop: "map_of (set_prop k v ps) = (map_of ps)(k \<mapsto> v)"
  by (induction ps) (auto simp: fun_eq_iff)

lemma getCircuitBreaker_stores [simp]:
  "recentCalls (snd (getCircuitBreaker st ep)) = recentCalls st"
  "responseCache (snd (getCircuitBreaker st ep)) = responseCache st"
  "circuitBreakers (snd (getCircuitBreaker st ep)) ep = Some (fst (getCircuitBreaker st ep))"
  "ep' \<noteq> ep \<Longrightarrow> circuitBreakers (snd (getCircuitBreaker st ep)) ep' = circuitBreakers st ep'"
  by (simp_all add: getCircuitBreaker_def split: option.splits)

lemma getCircuitBreaker_present:
  "circuitBreakers st ep = Some b \<Longrightarrow> getCircuitBreaker st ep = (b, st)"
  by (simp add: getCircuitBreaker_def)

lemma put_breaker_stores [simp]:
  "recentCalls (put_breaker st ep b) = recentCalls st"
  "responseCache (put_breaker st ep b) = responseCache st"
  "circuitBreakers (put_breaker st ep b) = (circuitBreakers st)(ep \<mapsto> b)"
  by (simp_all add: put_breaker_def)

lemma getCachedResponse_cong:
  "responseCache st = responseCache st' \<Longrightarrow>
   getCachedResponse st now key = getCachedResponse st' now key"
  by (simp add: getCachedResponse_def)

lemma check_circuit_stores [simp]:
  "recentCalls (snd (check_circuit st now cfg)) = recentCalls st"
  "responseCache (snd (check_circuit st now cfg)) = responseCache st"
  by (auto simp: check_circuit_def Let_def getCircuitBreaker_def split: prod.splits option.splits)

lemma throttle_stores [simp]:
  "circuitBreakers (snd (throttle st now cfg)) = circuitBreakers st"
  "responseCache (snd (throttle st now cfg)) = responseCache st"
  by (simp_all add: throttle_def Let_def split: option.splits)

lemma throttle_cong:
  "recentCalls st = recentCalls st' \<Longrightarrow> responseCache st = responseCache st' \<Longrightarrow>
   fst (throttle st now cfg) = fst (throttle st' now cfg)"
  by (simp add: throttle_def Let_def getCachedResponse_def split: option.splits)

lemma request_interceptor_admits:
  assumes "request_interceptor st now cfg = (Inr cfg1, st1)"
  shows "cfg1 = cfg"
    and "fst (check_circuit st now cfg) = None"
    and "fst (throttle (snd (check_circuit st now cfg)) now cfg) = None"
    and "st1 = snd (throttle (snd (check_circuit st now cfg)) now cfg)"
    and "url cfg \<noteq> ''/settings/defaults''"
  using assms
  by (auto simp: request_interceptor_def check_deprecated_def split: prod.splits option.splits if_splits)

lemma request_interceptor_throws:
  assumes "request_interceptor st now cfg = (Inl e, st1)"
  shows "error_config e = None"
  using assms
  by (auto simp: request_interceptor_def check_deprecated_def check_circuit_def throttle_def Let_def
      split: prod.splits option.splits if_splits)

lemma check_circuit_breaker:
  "\<exists>b. circuitBreakers (snd (check_circuit st now cfg)) (url cfg) = Some b \<and>
       failureCount b = failureCount (fst (getCircuitBreaker st (url cfg))) \<and>
       lastFailureTime b = lastFailureTime (fst (getCircuitBreaker st (url cfg))) \<and>
       lastSuccessTime b = lastSuccessTime (fst (getCircuitBreaker st (url cfg)))"
  by (auto simp: check_circuit_def Let_def getCircuitBreaker_def put_breaker_def
      split: prod.splits option.splits)

lemma check_circuit_passes:
  assumes "fst (check_circuit st now cfg) = None"
  shows "\<exists>b. circuitBreakers (snd (check_circuit st now cfg)) (url cfg) = Some b \<and> state b \<noteq> OPEN"
  using assms
  by (auto simp: check_circuit_def Let_def getCircuitBreaker_def put_breaker_def new_breaker_def
      split: prod.splits option.splits if_splits)

lemma check_circuit_other:
  "ep \<noteq> url cfg \<Longrightarrow> circuitBreakers (snd (check_circuit st now cfg)) ep = circuitBreakers st ep"
  by (auto simp: check_circuit_def Let_def getCircuitBreaker_def put_breaker_def
      split: prod.splits option.splits)

lemma response_error_mock:
  "response_error st now later net (MockResponse r) = \<lparr>returned = Resolved r, store = st, liveCalls = 0\<rparr>"
  by (simp add: response_error_def)

lemma update_breaker_on_error_stores [simp]:
  "recentCalls (update_breaker_on_error st now err) = recentCalls st"
  "responseCache (update_breaker_on_error st now err) = responseCache st"
  by (auto simp: update_breaker_on_error_def Let_def split: option.splits prod.splits)
     (metis getCircuitBreaker_stores(1,2) snd_conv)+

lemma update_breaker_on_error_present:
  assumes "error_config err = Some cfg" and "url cfg \<noteq> []"
  shows "circuitBreakers (update_breaker_on_error st now err) (url cfg) \<noteq> None"
  using assms
  by (auto simp: update_breaker_on_error_def Let_def getCircuitBreaker_def split: option.splits prod.splits)

lemma enhancedError_store:
  assumes "\<forall>cfg. error_config err0 = Some cfg \<longrightarrow> url cfg \<noteq> [] \<longrightarrow> circuitBreakers st (url cfg) \<noteq> None"
  shows "snd (enhancedError st err0 err) = st"
  using assms
  by (auto simp: enhancedError_def Let_def getCircuitBreaker_def split: option.splits prod.splits)

lemma settle_store:
  assumes "\<forall>cfg. error_config err0 = Some cfg \<longrightarrow> url cfg \<noteq> [] \<longrightarrow> circuitBreakers st (url cfg) \<noteq> None"
  shows "store (settle st now err0 err n) = st"
  using enhancedError_store [OF assms, of err]
  by (auto simp: settle_def Let_def split: option.splits prod.splits)

lemma response_error_store:
  "store (response_error st now later net err) = update_breaker_on_error st now err"
proof (cases err)
  case (MockResponse r)
  then show ?thesis by (simp add: response_error_def update_breaker_on_error_def)
next
  case (Cancel msg)
  then show ?thesis
    by (simp add: response_error_def update_breaker_on_error_def settle_store)
next
  case (AxiosError cfg r)
  then have "store (settle (update_breaker_on_error st now err) later err e n) =
             update_breaker_on_error st now err" for e n
    using update_breaker_on_error_present [of err cfg st now]
    by (intro settle_store) auto
  with AxiosError show ?thesis
    by (simp add: response_error_def Let_def split: prod.splits sum.splits)
qed

lemma send_rejects:
  assumes "net i = Reply s phrase d" and "\<not> (200 \<le> s \<and> s < 300)"
  shows "send net cfg i =
           Inl (AxiosError cfg
                  (Some \<lparr>data = d, status = Some s, statusText = Some phrase, rconfig = Some cfg\<rparr>))"
  using assms by (simp add: send_def Let_def)

lemma send_no_reply:
  "net i = NoReply \<Longrightarrow> send net cfg i = Inl (AxiosError cfg None)"
  by (simp add: send_def)

lemma send_resolves:
  assumes "net i = Reply s phrase d" and "200 \<le> s" and "s < 300"
  shows "send net cfg i =
           Inr \<lparr>data = d, status = Some s, statusText = Some phrase, rconfig = Some cfg\<rparr>"
  using assms by (simp add: send_def Let_def)

lemma admitted_breaker:
  assumes "request_interceptor st now cfg = (Inr cfg1, st1)"
  shows "\<exists>b. circuitBreakers st1 (url cfg) = Some b \<and> state b \<noteq> OPEN \<and>
             failureCount b = failureCount (fst (getCircuitBreaker st (url cfg))) \<and>
             lastFailureTime b = lastFailureTime (fst (getCircuitBreaker st (url cfg))) \<and>
             lastSuccessTime b = lastSuccessTime (fst (getCircuitBreaker st (url cfg)))"
  using request_interceptor_admits(2,4) [OF assms]
    check_circuit_passes [of st now cfg] check_circuit_breaker [of st now cfg]
  by auto

lemma dispatch_rejected_call:
  assumes "request_interceptor st (t_request clk) cfg = (Inr cfg1, st1)"
    and "send net cfg 0 = Inl e"
  shows "dispatch st clk net cfg =
           (response_error st1 (t_response clk) (t_settled clk) net e)
             \<lparr>liveCalls := 1 + liveCalls (response_error st1 (t_response clk) (t_settled clk) net e)\<rparr>"
  using assms request_interceptor_admits(1) [OF assms(1)]
  by (simp add: dispatch_def Let_def)

lemma update_breaker_on_error_client:
  assumes "circuitBreakers st (url cfg) = Some b" and "s < 500"
  shows "update_breaker_on_error st now
           (AxiosError cfg (Some \<lparr>data = d, status = Some s, statusText = x, rconfig = c\<rparr>)) = st"
  using assms
  by (simp add: update_breaker_on_error_def getCircuitBreaker_present status_ge_500_def)

lemma update_breaker_on_error_counts:
  assumes "circuitBreakers st (url cfg) = Some b" and "url cfg \<noteq> []"
    and "error_config e = Some cfg" and "status_ge_500 e \<or> isNetworkError e"
  shows "circuitBreakers (update_breaker_on_error st now e) =
           (circuitBreakers st)(url cfg \<mapsto>
              b\<lparr>state := (if failureCount b + 1 \<ge> CIRCUIT_BREAKER_THRESHOLD then OPEN else state b),
                failureCount := failureCount b + 1, lastFailureTime := Some now\<rparr>)"
  using assms
  by (auto simp: update_breaker_on_error_def getCircuitBreaker_present Let_def)

lemma response_success_breaker:
  assumes "circuitBreakers st (url cfg) = Some b" and "state b \<noteq> OPEN"
  shows "circuitBreakers (snd (response_success st now cfg r)) =
           (circuitBreakers st)(url cfg \<mapsto>
              b\<lparr>state := CLOSED, failureCount := 0, lastSuccessTime := Some now\<rparr>)"
proof -
  have "state b = CLOSED \<or> state b = HALF_OPEN"
    using assms(2) by (cases "state b") auto
  then show ?thesis
    using assms(1)
    by (auto simp: response_success_def getCircuitBreaker_present Let_def cacheResponse_def
        split: option.splits)
qed

lemma response_success_cache:
  "responseCache (snd (response_success st now cfg r)) =
     (case data r of
        Some d \<Rightarrow>
          if method_of cfg = GET \<and> status r = Some 200
          then (responseCache st)(cacheKey GET (url cfg) \<mapsto> \<lparr>cached_data = d, timestamp = now\<rparr>)
          else responseCache st
      | None \<Rightarrow> responseCache st)"
  by (auto simp: response_success_def getCircuitBreaker_def Let_def cacheResponse_def put_breaker_def
      split: option.splits prod.splits)

lemma response_success_returns [simp]:
  "fst (response_success st now cfg r) = r"
  by (simp add: response_success_def Let_def split: prod.splits)

lemma dispatch_resolved_call:
  assumes "request_interceptor st (t_request clk) cfg = (Inr cfg1, st1)"
    and "send net cfg 0 = Inr r"
  shows "dispatch st clk net cfg =
           \<lparr>returned = Resolved r, store = snd (response_success st1 (t_response clk) cfg r),
            liveCalls = 1\<rparr>"
  using assms request_interceptor_admits(1) [OF assms(1)]
  by (simp add: dispatch_def Let_def split_beta)

lemma admitted_collapse:
  "fst (request_interceptor st now cfg) = Inr cfg \<Longrightarrow>
   request_interceptor st now cfg = (Inr cfg, snd (request_interceptor st now cfg))"
  by (simp add: prod_eq_iff)

lemma request_interceptor_store:
  "snd (request_interceptor st now cfg) =
     (if fst (check_circuit st now cfg) = None
      then snd (throttle (snd (check_circuit st now cfg)) now cfg)
      else snd (check_circuit st now cfg))"
  by (auto simp: request_interceptor_def split: prod.splits option.splits)

lemma request_interceptor_cache [simp]:
  "responseCache (snd (request_interceptor st now cfg)) = responseCache st"
  by (simp add: request_interceptor_store)

lemma throttle_full:
  assumes "recentCalls st (url cfg) = Some w"
    and "now - time w < THROTTLE_WINDOW"
    and "MAX_CALLS_PER_WINDOW \<le> count w"
  shows "fst (throttle st now cfg) =
           Some (case getCachedResponse st now (cacheKey (method_of cfg) (url cfg)) of
                   Some p \<Rightarrow>
                     MockResponse \<lparr>data = Some p, status = Some 200,
                                   statusText = Some ''OK (Cached)'', rconfig = Some cfg\<rparr>
                 | None \<Rightarrow>
                     (case lastResponse w of
                        Some p \<Rightarrow>
                          MockResponse \<lparr>data = Some p, status = Some 200,
                                        statusText = Some ''OK (Throttled Cache)'', rconfig = Some cfg\<rparr>
                      | None \<Rightarrow> Cancel (''Circuit breaker: Too many calls to '' @ url cfg)))"
  using assms
  by (auto simp: throttle_def Let_def getCachedResponse_def split: option.splits)

lemma check_circuit_throws_mock:
  "fst (check_circuit st now cfg) = Some e \<Longrightarrow> \<exists>r. e = MockResponse r"
  by (auto simp: check_circuit_def Let_def split: prod.splits option.splits if_splits)

lemma response_error_cancel:
  "response_error st now later net (Cancel msg) =
     \<lparr>returned = Rejected \<lparr>etype = (if msg \<noteq> [] then CLIENT else UNKNOWN), estatus = None,
                            eendpoint = None, emethod = GET, circuitState = None,
                            fallbackAttempted = True, original = Cancel msg\<rparr>,
      store = st, liveCalls = 0\<rparr>"
  by (simp add: response_error_def update_breaker_on_error_def settle_def fallback_strategies_def
      enhancedError_def)

lemma cacheKey_inj: "cacheKey m1 ep1 = cacheKey m2 ep2 \<Longrightarrow> m1 = m2 \<and> ep1 = ep2"
  by (cases m1; cases m2) (simp_all add: cacheKey_def)

lemma check_circuit_path:
  "url cfg1 = url cfg2 \<Longrightarrow> snd (check_circuit st now cfg1) = snd (check_circuit st now cfg2)"
  "url cfg1 = url cfg2 \<Longrightarrow>
   (fst (check_circuit st now cfg1) = None) = (fst (check_circuit st now cfg2) = None)"
  by (auto simp: check_circuit_def Let_def split: prod.splits option.splits)

lemma throttle_path:
  "url cfg1 = url cfg2 \<Longrightarrow> snd (throttle st now cfg1) = snd (throttle st now cfg2)"
  by (auto simp: throttle_def Let_def split: option.splits)

lemma check_circuit_dom:
  "dom (circuitBreakers (snd (check_circuit st now cfg))) = insert (url cfg) (dom (circuitBreakers st))"
  by (auto simp: check_circuit_def Let_def getCircuitBreaker_def put_breaker_def
      split: prod.splits option.splits if_splits)

lemma throttle_dom:
  "dom (recentCalls (snd (throttle st now cfg))) = insert (url cfg) (dom (recentCalls st))"
  by (auto simp: throttle_def Let_def split: option.splits if_splits)

lemma check_circuit_open:
  assumes "circuitBreakers st (url cfg) = Some b" and "state b = OPEN"
    and "\<not> shouldAttemptReset now b"
  shows "\<exists>r. check_circuit st now cfg = (Some (MockResponse r), st)"
  using assms
  by (simp add: check_circuit_def getCircuitBreaker_present Let_def split: option.splits)

lemma check_circuit_reset:
  assumes "circuitBreakers st (url cfg) = Some b" and "shouldAttemptReset now b"
  shows "check_circuit st now cfg = (None, put_breaker st (url cfg) (b\<lparr>state := HALF_OPEN\<rparr>))"
  using assms
  by (simp add: check_circuit_def getCircuitBreaker_present shouldAttemptReset_def)

lemma check_circuit_not_open:
  assumes "circuitBreakers st (url cfg) = Some b" and "state b \<noteq> OPEN"
  shows "check_circuit st now cfg = (None, st)"
  using assms
  by (simp add: check_circuit_def getCircuitBreaker_present)

lemma request_interceptor_passes:
  assumes "fst (check_circuit st now cfg) = None"
    and "fst (throttle (snd (check_circuit st now cfg)) now cfg) = None"
    and "url cfg \<noteq> ''/settings/defaults''"
  shows "request_interceptor st now cfg =
           (Inr cfg, snd (throttle (snd (check_circuit st now cfg)) now cfg))"
  using assms
  by (cases "check_circuit st now cfg"; cases "throttle (snd (check_circuit st now cfg)) now cfg")
     (simp add: request_interceptor_def check_deprecated_def)

lemma dispatch_thrown:
  assumes "fst (request_interceptor st (t_request clk) cfg) = Inl e"
  shows "store (dispatch st clk net cfg) =
           update_breaker_on_error (snd (request_interceptor st (t_request clk) cfg)) (t_response clk) e"
  using assms
  by (cases "request_interceptor st (t_request clk) cfg")
     (simp add: dispatch_def response_error_store)

subsection \<open>An invariant of the breakers\<close>

text \<open>
  The request interceptor and both response handlers each keep the breakers counted, in
  whatever order requests are started and answered; so does a whole dispatch, and in every
  store that a run reaches from the empty one an OPEN breaker has at least five failures
  on record.
\<close>

lemma breakers_counted_empty: "breakers_counted empty_dispatcher"
  by (simp add: breakers_counted_def empty_dispatcher_def)

lemma breakers_counted_cong:
  "circuitBreakers st' = circuitBreakers st \<Longrightarrow> breakers_counted st' = breakers_counted st"
  by (simp add: breakers_counted_def)

lemma breakers_counted_get:
  "breakers_counted st \<Longrightarrow> breakers_counted (snd (getCircuitBreaker st ep))"
  by (auto simp: breakers_counted_def getCircuitBreaker_def new_breaker_def split: option.splits)

lemma breakers_counted_put:
  assumes "breakers_counted st"
    and "state b \<noteq> CLOSED \<Longrightarrow> CIRCUIT_BREAKER_THRESHOLD \<le> failureCount b"
  shows "breakers_counted (put_breaker st ep b)"
  using assms by (auto simp: breakers_counted_def put_breaker_def)

lemma breakers_counted_check_circuit:
  assumes "breakers_counted st"
  shows "breakers_counted (snd (check_circuit st now cfg))"
proof -
  obtain b st1 where g: "getCircuitBreaker st (url cfg) = (b, st1)"
    by (cases "getCircuitBreaker st (url cfg)")
  have st1: "breakers_counted st1"
    using breakers_counted_get [OF assms, of "url cfg"] g by simp
  have b: "circuitBreakers st1 (url cfg) = Some b"
    using getCircuitBreaker_stores(3) [of st "url cfg"] g by simp
  have "state b = OPEN \<Longrightarrow> CIRCUIT_BREAKER_THRESHOLD \<le> failureCount b"
    using st1 b by (auto simp: breakers_counted_def)
  then have "state b = OPEN \<Longrightarrow> breakers_counted (put_breaker st1 (url cfg) (b\<lparr>state := HALF_OPEN\<rparr>))"
    using st1 by (intro breakers_counted_put) simp_all
  then show ?thesis
    using st1 g by (auto simp: check_circuit_def Let_def split: option.splits)
qed

lemma breakers_counted_request_interceptor:
  assumes "breakers_counted st"
  shows "breakers_counted (snd (request_interceptor st now cfg))"
  using breakers_counted_check_circuit [OF assms, of now cfg]
    breakers_counted_cong [of "snd (throttle (snd (check_circuit st now cfg)) now cfg)"
      "snd (check_circuit st now cfg)"]
  by (simp add: request_interceptor_store)

lemma breakers_counted_response_success:
  assumes "breakers_counted st"
  shows "breakers_counted (snd (response_success st now cfg r))"
proof -
  obtain b st1 where g: "getCircuitBreaker st (url cfg) = (b, st1)"
    by (cases "getCircuitBreaker st (url cfg)")
  have st1: "breakers_counted st1"
    using breakers_counted_get [OF assms, of "url cfg"] g by simp
  let ?st2 = "if state b = HALF_OPEN
                 then put_breaker st1 (url cfg)
                        (b\<lparr>state := CLOSED, failureCount := 0, lastSuccessTime := Some now\<rparr>)
                 else if state b = CLOSED
                 then put_breaker st1 (url cfg) (b\<lparr>failureCount := 0, lastSuccessTime := Some now\<rparr>)
                 else st1"
  have st2: "breakers_counted ?st2"
    using st1 by (auto intro!: breakers_counted_put)
  have "circuitBreakers (snd (response_success st now cfg r)) = circuitBreakers ?st2"
    using g by (auto simp: response_success_def Let_def cacheResponse_def split: option.splits)
  then show ?thesis
    using st2 breakers_counted_cong by blast
qed

lemma breakers_counted_update:
  assumes "breakers_counted st"
  shows "breakers_counted (update_breaker_on_error st now err)"
proof (cases "error_config err")
  case None
  then show ?thesis using assms by (simp add: update_breaker_on_error_def)
next
  case (Some cfg)
  obtain b st1 where g: "getCircuitBreaker st (url cfg) = (b, st1)"
    by (cases "getCircuitBreaker st (url cfg)")
  have st1: "breakers_counted st1"
    using breakers_counted_get [OF assms, of "url cfg"] g by simp
  have b: "circuitBreakers st1 (url cfg) = Some b"
    using getCircuitBreaker_stores(3) [of st "url cfg"] g by simp
  have keep: "state b \<noteq> CLOSED \<Longrightarrow> CIRCUIT_BREAKER_THRESHOLD \<le> failureCount b"
    using st1 b by (auto simp: breakers_counted_def)
  let ?b1 = "b\<lparr>failureCount := failureCount b + 1, lastFailureTime := Some now\<rparr>"
  have "breakers_counted (put_breaker st1 (url cfg)
          (if CIRCUIT_BREAKER_THRESHOLD \<le> failureCount ?b1 then ?b1\<lparr>state := OPEN\<rparr> else ?b1))"
    using st1 keep by (intro breakers_counted_put) (auto split: if_splits)
  then show ?thesis
    using Some g st1 assms
    by (auto simp: update_breaker_on_error_def Let_def split: if_splits)
qed

lemma breakers_counted_dispatch:
  assumes "breakers_counted st"
  shows "breakers_counted (store (dispatch st clk net cfg))"
proof -
  obtain x st1 where ri: "request_interceptor st (t_request clk) cfg = (x, st1)"
    by (cases "request_interceptor st (t_request clk) cfg")
  have st1: "breakers_counted st1"
    using breakers_counted_request_interceptor [OF assms, of "t_request clk" cfg] ri by simp
  show ?thesis
  proof (cases x)
    case (Inl e)
    then show ?thesis
      using dispatch_thrown [of st clk cfg e net] ri breakers_counted_update [OF st1] by simp
  next
    case (Inr cfg1)
    then have adm: "request_interceptor st (t_request clk) cfg = (Inr cfg1, st1)"
      using ri by simp
    show ?thesis
    proof (cases "send net cfg 0")
      case (Inl e)
      then show ?thesis
        using breakers_counted_update [OF st1]
        by (simp add: dispatch_rejected_call [OF adm] response_error_store)
    next
      case (Inr r)
      then show ?thesis
        using breakers_counted_response_success [OF st1]
        by (simp add: dispatch_resolved_call [OF adm])
    qed
  qed
qed

lemma breakers_counted_run:
  "breakers_counted st \<Longrightarrow> breakers_counted (run st rs)"
  by (induction st rs rule: run.induct) (simp_all add: breakers_counted_dispatch)

lemma reachable_open_breaker_counted:
  assumes "circuitBreakers (run empty_dispatcher rs) ep = Some b" and "state b = OPEN"
  shows "CIRCUIT_BREAKER_THRESHOLD \<le> failureCount b"
  using breakers_counted_run [OF breakers_counted_empty, of rs] assms
  by (auto simp: breakers_counted_def)

subsection \<open>How the live call ends\<close>

text \<open>
  A live call that ends in a server or transport error after its retries began with one,
  and a live call that ends in a response resolves the dispatch.
\<close>

lemma failed_call_began_failing:
  assumes "live_outcome net cfg = Inl e" and "status_ge_500 e \<or> isNetworkError e"
  shows "net 0 = NoReply \<or> (\<exists>s phrase d. net 0 = Reply s phrase d \<and> 500 \<le> s)"
proof (cases "net 0")
  case NoReply
  then show ?thesis by simp
next
  case (Reply s phrase d)
  show ?thesis
  proof (cases "500 \<le> s")
    case True
    with Reply show ?thesis by simp
  next
    case False
    then have "live_outcome net cfg =
        (if 200 \<le> s \<and> s < 300
         then Inr \<lparr>data = d, status = Some s, statusText = Some phrase, rconfig = Some cfg\<rparr>
         else Inl (AxiosError cfg
                (Some \<lparr>data = d, status = Some s, statusText = Some phrase, rconfig = Some cfg\<rparr>)))"
      using Reply by (simp add: live_outcome_def send_def Let_def status_ge_500_def)
    with assms False show ?thesis
      by (auto simp: status_ge_500_def split: if_splits)
  qed
qed

lemma dispatch_settles_live_outcome:
  assumes adm: "request_interceptor st (t_request clk) cfg = (Inr cfg1, st1)"
    and out: "live_outcome net cfg = Inr r"
  shows "\<exists>r'. returned (dispatch st clk net cfg) = Resolved r'"
proof (cases "send net cfg 0")
  case (Inr r0)
  then show ?thesis by (simp add: dispatch_resolved_call [OF adm])
next
  case (Inl e)
  then have e: "error_config e = Some cfg" and retry: "status_ge_500 e \<and> status_lt_600 e"
    and rr: "fst (retryRequest net cfg 1) = Inr r"
    using out by (auto simp: live_outcome_def send_def Let_def split: reply.splits if_splits)
  then show ?thesis
    using Inl
    by (cases e; cases "retryRequest net cfg 1")
       (auto simp: dispatch_rejected_call [OF adm] response_error_def Let_def)
qed

subsection \<open>Endpoint paths\<close>

text \<open>
  An endpoint path is not empty and names no member of \<^verbatim>\<open>Object.prototype\<close>. For the
  empty URL the rejected handler leaves the breakers alone, whatever the error.
\<close>

lemma endpoint_path_nonempty: "endpoint_path p \<Longrightarrow> p \<noteq> []"
  by (cases p) (simp_all add: endpoint_path_def)

lemma endpoint_path_own_key: "endpoint_path p \<Longrightarrow> p \<notin> set object_prototype_members"
  by (auto simp: endpoint_path_def object_prototype_members_def)

lemma empty_url_is_no_endpoint:
  "update_breaker_on_error st now (AxiosError \<lparr>url = [], req_method = m\<rparr> r) = st"
  by (simp add: update_breaker_on_error_def)

subsection \<open>Lookups and retries\<close>

lemma getCircuitBreaker_again:
  "fst (getCircuitBreaker (snd (getCircuitBreaker st k)) ep) = fst (getCircuitBreaker st ep)"
  by (auto simp: getCircuitBreaker_def split: option.splits)

lemma retryRequest_stops:
  assumes "send net cfg attempt = Inl e" and "\<not> status_ge_500 e"
  shows "retryRequest net cfg attempt = (Inl e, attempt)"
  using assms by (simp add: retryRequest.simps)

lemma failed_call_first_error:
  assumes "live_outcome net cfg = Inl e" and "status_ge_500 e \<or> isNetworkError e"
  shows "\<exists>err. send net cfg 0 = Inl err \<and> error_config err = Some cfg \<and>
               (status_ge_500 err \<or> isNetworkError err)"
proof -
  from failed_call_began_failing [OF assms]
  show ?thesis
  proof
    assume "net 0 = NoReply"
    then have "send net cfg 0 = Inl (AxiosError cfg None)" by (rule send_no_reply)
    then show ?thesis by auto
  next
    assume "\<exists>s phrase d. net 0 = Reply s phrase d \<and> 500 \<le> s"
    then obtain s phrase d where r: "net 0 = Reply s phrase d" and s: "500 \<le> s" by blast
    have "send net cfg 0 =
            Inl (AxiosError cfg
                   (Some \<lparr>data = d, status = Some s, statusText = Some phrase, rconfig = Some cfg\<rparr>))"
      using r s by (intro send_rejects) auto
    then show ?thesis using s by (auto simp: status_ge_500_def)
  qed
qed

subsection \<open>C1: writes and the open breaker\<close>

text \<open>
  Claim C1 fails on the code. The rejected handler offers the canned fallback to GET
  requests only, but the breaker check of the request interceptor does not look at the
  method. After five \<^verbatim>\<open>POST /expenses\<close> answered 503 the breaker of \<^verbatim>\<open>/expenses\<close>
  is OPEN; the next \<^verbatim>\<open>POST /expenses\<close>, 100 ms later, makes no live call and resolves with
  status 200 and the canned \<^verbatim>\<open>success: true\<close> body of \<^verbatim>\<open>fallbackData\<close>.
\<close>

theorem mutating_request_served_fallback:
  "circuitBreakers (tripped (request POST ''/expenses'')) ''/expenses'' =
     Some \<lparr>state = OPEN, failureCount = 5, lastFailureTime = Some 0, lastSuccessTime = None\<rparr> \<and>
   returned (dispatch (tripped (request POST ''/expenses'')) (instant 100) (always NoReply)
               (request POST ''/expenses'')) =
     Resolved
       \<lparr>data = Some [(''success'', JBool True), (''data'', JArr []),
                     (''pagination'', JObj [(''page'', JNum 1), (''limit'', JNum 10), (''total'', JNum 0)]),
                     (''message'', JStr ''Using cached expenses data''),
                     (''fallback'', JBool True), (''endpoint'', JStr ''/expenses''),
                     (''timestamp'', JTime 100)],
        status = Some 200, statusText = Some ''OK (Fallback)'',
        rconfig = Some \<lparr>url = ''/expenses'', req_method = Some POST\<rparr>\<rparr> \<and>
   liveCalls (dispatch (tripped (request POST ''/expenses'')) (instant 100) (always NoReply)
                (request POST ''/expenses'')) = 0"
  by code_simp

subsection \<open>C2: the half-open state\<close>

text \<open>
  Claim C2, amended. Take a breaker that is OPEN, on a path other than the deprecated one,
  once \<^verbatim>\<open>now - lastFailureTime\<close> exceeds the cooldown. The next request that the throttle
  admits moves the breaker to HALF_OPEN and goes to the network, and so does every further
  request to the path that the throttle admits from then on: the code keeps no record of a
  probe in flight. What an answer does depends on the breaker it finds, in whatever store
  \<open>found\<close> the handlers of other requests have left. A response that finds the breaker
  HALF_OPEN makes it CLOSED with failure count 0. A request to an endpoint path whose live
  call ends, once its retries are over, in a 5xx or transport failure, and whose first
  failure finds the breaker HALF_OPEN with its five or more failures on record (the
  invariant above), makes it OPEN again with the last failure time stamped anew.
\<close>

theorem half_open_probe:
  assumes br: "circuitBreakers st (url cfg) = Some b"
    and op: "state b = OPEN"
    and elapsed: "shouldAttemptReset now b"
    and thr: "fst (throttle st now cfg) = None"
    and nodep: "url cfg \<noteq> ''/settings/defaults''"
  shows "fst (request_interceptor st now cfg) = Inr cfg \<and>
         circuitBreakers (snd (request_interceptor st now cfg)) (url cfg) =
           Some (b\<lparr>state := HALF_OPEN\<rparr>) \<and>
         (url next_cfg = url cfg \<and>
          fst (throttle (snd (request_interceptor st now cfg)) next_now next_cfg) = None \<longrightarrow>
            fst (request_interceptor (snd (request_interceptor st now cfg)) next_now next_cfg) =
              Inr next_cfg) \<and>
         (circuitBreakers found (url cfg) = Some h \<and> state h = HALF_OPEN \<longrightarrow>
            circuitBreakers (snd (response_success found t cfg r)) (url cfg) =
              Some (h\<lparr>state := CLOSED, failureCount := 0, lastSuccessTime := Some t\<rparr>)) \<and>
         (circuitBreakers found (url cfg) = Some h \<and> state h = HALF_OPEN \<and>
          CIRCUIT_BREAKER_THRESHOLD \<le> failureCount h \<and> endpoint_path (url cfg) \<and>
          send net cfg 0 = Inl err \<and> live_outcome net cfg = Inl e \<and>
          (status_ge_500 e \<and> status_lt_600 e \<or> isNetworkError e) \<longrightarrow>
            circuitBreakers (store (response_error found t later net err)) (url cfg) =
              Some (h\<lparr>state := OPEN, failureCount := failureCount h + 1,
                      lastFailureTime := Some t\<rparr>))"
proof -
  let ?half = "b\<lparr>state := HALF_OPEN\<rparr>"
  let ?st0 = "put_breaker st (url cfg) ?half"
  let ?st1 = "snd (throttle ?st0 now cfg)"
  have cc: "check_circuit st now cfg = (None, ?st0)"
    by (rule check_circuit_reset [OF br elapsed])
  have th: "fst (throttle ?st0 now cfg) = None"
    using thr throttle_cong [of ?st0 st now cfg] by simp
  have adm: "request_interceptor st now cfg = (Inr cfg, ?st1)"
    using request_interceptor_passes [of st now cfg] cc th nodep by simp
  have b1: "circuitBreakers ?st1 (url cfg) = Some ?half"
    by simp
  have half: "state ?half \<noteq> OPEN"
    by simp
  have again: "fst (request_interceptor ?st1 next_now next_cfg) = Inr next_cfg"
    if u: "url next_cfg = url cfg" and t2: "fst (throttle ?st1 next_now next_cfg) = None"
  proof -
    have "check_circuit ?st1 next_now next_cfg = (None, ?st1)"
      using b1 half u by (intro check_circuit_not_open [where b = ?half]) simp_all
    then show ?thesis
      using request_interceptor_passes [of ?st1 next_now next_cfg] t2 u nodep by simp
  qed
  have succ: "circuitBreakers (snd (response_success found t cfg r)) (url cfg) =
      Some (h\<lparr>state := CLOSED, failureCount := 0, lastSuccessTime := Some t\<rparr>)"
    if "circuitBreakers found (url cfg) = Some h" and "state h = HALF_OPEN"
    using response_success_breaker [of found cfg h t r] that by simp
  have fail: "circuitBreakers (store (response_error found t later net err)) (url cfg) =
      Some (h\<lparr>state := OPEN, failureCount := failureCount h + 1, lastFailureTime := Some t\<rparr>)"
    if h: "circuitBreakers found (url cfg) = Some h"
      and counted: "CIRCUIT_BREAKER_THRESHOLD \<le> failureCount h"
      and path: "endpoint_path (url cfg)"
      and snd: "send net cfg 0 = Inl err"
      and ends: "live_outcome net cfg = Inl e"
      and kind: "status_ge_500 e \<and> status_lt_600 e \<or> isNetworkError e"
  proof -
    have "status_ge_500 e \<or> isNetworkError e"
      using kind by blast
    then obtain err' where "send net cfg 0 = Inl err'" and "error_config err' = Some cfg"
      and "status_ge_500 err' \<or> isNetworkError err'"
      using failed_call_first_error [OF ends] by blast
    then have cfg: "error_config err = Some cfg" and first: "status_ge_500 err \<or> isNetworkError err"
      using snd by simp_all
    have ne: "url cfg \<noteq> []"
      using path by (rule endpoint_path_nonempty)
    show ?thesis
      using counted
      by (simp add: response_error_store update_breaker_on_error_counts [OF h ne cfg first])
  qed
  show ?thesis
    using adm b1 again succ fail by auto
qed

text \<open>
  The breaker of \<^verbatim>\<open>/budgets\<close> opened at clock 0. The request at clock 40000 is let through,
  and so is a second one at clock 40001; an answer 200, or an answer 500 to the call and to
  each retry, arrives while the breaker is still HALF_OPEN.
\<close>

theorem half_open_probe_witness:
  "circuitBreakers (tripped (request GET ''/budgets'')) (url (request GET ''/budgets'')) =
     Some \<lparr>state = OPEN, failureCount = 5, lastFailureTime = Some 0, lastSuccessTime = None\<rparr> \<and>
   shouldAttemptReset 40000
     \<lparr>state = OPEN, failureCount = 5, lastFailureTime = Some 0, lastSuccessTime = None\<rparr> \<and>
   fst (throttle (tripped (request GET ''/budgets'')) 40000 (request GET ''/budgets'')) = None \<and>
   fst (request_interceptor (tripped (request GET ''/budgets'')) 40000 (request GET ''/budgets'')) =
     Inr (request GET ''/budgets'') \<and>
   fst (request_interceptor
          (snd (request_interceptor (tripped (request GET ''/budgets'')) 40000 (request GET ''/budgets'')))
          40001 (request POST ''/budgets'')) = Inr (request POST ''/budgets'') \<and>
   circuitBreakers
     (snd (response_success
             (snd (request_interceptor (tripped (request GET ''/budgets'')) 40000 (request GET ''/budgets'')))
             40050 (request GET ''/budgets'')
             \<lparr>data = None, status = Some 200, statusText = Some ''OK'',
              rconfig = Some (request GET ''/budgets'')\<rparr>)) (url (request GET ''/budgets'')) =
     Some \<lparr>state = CLOSED, failureCount = 0, lastFailureTime = Some 0, lastSuccessTime = Some 40050\<rparr> \<and>
   endpoint_path (url (request GET ''/budgets'')) \<and>
   live_outcome (always (Reply 500 ''Internal Server Error'' None)) (request GET ''/budgets'') =
     Inl (http_error (request GET ''/budgets'') 500 ''Internal Server Error'') \<and>
   circuitBreakers
     (store (response_error
               (snd (request_interceptor (tripped (request GET ''/budgets'')) 40000 (request GET ''/budgets'')))
               40050 47050 (always (Reply 500 ''Internal Server Error'' None))
               (http_error (request GET ''/budgets'') 500 ''Internal Server Error'')))
     (url (request GET ''/budgets'')) =
     Some \<lparr>state = OPEN, failureCount = 6, lastFailureTime = Some 40050, lastSuccessTime = None\<rparr>"
proof -
  let ?st = "tripped (request GET ''/budgets'')"
  let ?cfg = "request GET ''/budgets''"
  let ?b = "\<lparr>state = OPEN, failureCount = 5, lastFailureTime = Some 0, lastSuccessTime = None\<rparr>"
  let ?h = "\<lparr>state = HALF_OPEN, failureCount = 5, lastFailureTime = Some 0, lastSuccessTime = None\<rparr>"
  let ?st1 = "snd (request_interceptor ?st 40000 ?cfg)"
  let ?net = "always (Reply 500 ''Internal Server Error'' None)"
  let ?err = "http_error ?cfg 500 ''Internal Server Error''"
  let ?r = "\<lparr>data = None, status = Some 200, statusText = Some ''OK'', rconfig = Some ?cfg\<rparr>"
  have h1: "circuitBreakers ?st (url ?cfg) = Some ?b" by code_simp
  have h2: "state ?b = OPEN" by simp
  have h3: "shouldAttemptReset 40000 ?b" by code_simp
  have h4: "fst (throttle ?st 40000 ?cfg) = None" by code_simp
  have h5: "url ?cfg \<noteq> ''/settings/defaults''" by (simp add: request_def)
  have u: "url (request POST ''/budgets'') = url ?cfg" by (simp add: request_def)
  have t2: "fst (throttle ?st1 40001 (request POST ''/budgets'')) = None" by code_simp
  have f1: "circuitBreakers ?st1 (url ?cfg) = Some ?h" by code_simp
  have f2: "state ?h = HALF_OPEN" by simp
  have f3: "CIRCUIT_BREAKER_THRESHOLD \<le> failureCount ?h" by code_simp
  have f4: "endpoint_path (url ?cfg)" by code_simp
  have f5: "send ?net ?cfg 0 = Inl ?err" by code_simp
  have f6: "live_outcome ?net ?cfg = Inl ?err" by code_simp
  have f7: "status_ge_500 ?err \<and> status_lt_600 ?err \<or> isNetworkError ?err" by code_simp
  note inst = half_open_probe
            [where next_cfg = "request POST ''/budgets''" and next_now = 40001 and found = ?st1
               and h = ?h and t = 40050 and later = 47050 and net = ?net and err = ?err and e = ?err
               and r = ?r, OF h1 h2 h3 h4 h5]
  show ?thesis
    using inst h1 h3 h4 u t2 f1 f2 f3 f4 f5 f6 f7
    by simp
qed

text \<open>
  Claim C2 as stated fails. With the probe let through at clock 40000 and not yet answered,
  a second request at clock 40001 is let through too. A probe answered 404 leaves the
  breaker HALF_OPEN, neither OPEN nor CLOSED. And when the second request is answered 503
  before the probe is answered 200, the probe's success finds the breaker OPEN and leaves
  it OPEN.
\<close>

theorem half_open_admits_second_request:
  "circuitBreakers (tripped (request GET ''/budgets'')) ''/budgets'' =
     Some \<lparr>state = OPEN, failureCount = 5, lastFailureTime = Some 0, lastSuccessTime = None\<rparr> \<and>
   fst (request_interceptor (tripped (request GET ''/budgets'')) 40000 (request GET ''/budgets'')) =
     Inr (request GET ''/budgets'') \<and>
   circuitBreakers
     (snd (request_interceptor (tripped (request GET ''/budgets'')) 40000 (request GET ''/budgets'')))
     ''/budgets'' =
     Some \<lparr>state = HALF_OPEN, failureCount = 5, lastFailureTime = Some 0, lastSuccessTime = None\<rparr> \<and>
   fst (request_interceptor
          (snd (request_interceptor (tripped (request GET ''/budgets'')) 40000 (request GET ''/budgets'')))
          40001 (request GET ''/budgets'')) =
     Inr (request GET ''/budgets'') \<and>
   circuitBreakers
     (store (dispatch (tripped (request GET ''/budgets'')) (instant 40000)
               (always (Reply 404 ''Not Found'' None)) (request GET ''/budgets'')))
     ''/budgets'' =
     Some \<lparr>state = HALF_OPEN, failureCount = 5, lastFailureTime = Some 0, lastSuccessTime = None\<rparr> \<and>
   circuitBreakers
     (snd (response_success
             (update_breaker_on_error
                (two_in_flight (tripped (request GET ''/budgets'')) 40000 (request GET ''/budgets''))
                40100 (http_error (request GET ''/budgets'') 503 ''Service Unavailable''))
             40200 (request GET ''/budgets'')
             \<lparr>data = Some [(''success'', JBool True)], status = Some 200, statusText = Some ''OK'',
              rconfig = Some (request GET ''/budgets'')\<rparr>)) ''/budgets'' =
     Some \<lparr>state = OPEN, failureCount = 6, lastFailureTime = Some 40100, lastSuccessTime = None\<rparr>"
  by code_simp

subsection \<open>C3: one failure per dispatch\<close>

text \<open>
  Claim C3. For every request to an endpoint path whose live call ends, once the retries
  are over, in a 5xx or a transport failure, the rejected handler leaves the failure count
  of the endpoint's breaker at what it found plus one; and when the request is alone, the
  count after the dispatch is the count before it plus one. \<^verbatim>\<open>retryRequest\<close> calls the
  bare client, so the handler that counts runs once for the call and never for a retry.
\<close>

theorem failure_counted_once:
  assumes path: "endpoint_path (url cfg)"
    and ends: "live_outcome net cfg = Inl e"
    and kind: "status_ge_500 e \<and> status_lt_600 e \<or> isNetworkError e"
  shows "(\<exists>err. send net cfg 0 = Inl err \<and>
            failureCount (fst (getCircuitBreaker (store (response_error st now later net err)) (url cfg))) =
              failureCount (fst (getCircuitBreaker st (url cfg))) + 1) \<and>
         (fst (request_interceptor st (t_request clk) cfg) = Inr cfg \<longrightarrow>
            failureCount (fst (getCircuitBreaker (store (dispatch st clk net cfg)) (url cfg))) =
              failureCount (fst (getCircuitBreaker st (url cfg))) + 1)"
proof -
  have kind': "status_ge_500 e \<or> isNetworkError e"
    using kind by blast
  obtain err where snd: "send net cfg 0 = Inl err" and cfg: "error_config err = Some cfg"
    and first: "status_ge_500 err \<or> isNetworkError err"
    using failed_call_first_error [OF ends kind'] by blast
  have ne: "url cfg \<noteq> []"
    using path by (rule endpoint_path_nonempty)
  have counted: "failureCount (fst (getCircuitBreaker (update_breaker_on_error st' t err) (url cfg))) =
                   failureCount (fst (getCircuitBreaker st' (url cfg))) + 1" for st' t
  proof -
    let ?b = "fst (getCircuitBreaker st' (url cfg))"
    let ?s = "snd (getCircuitBreaker st' (url cfg))"
    have b: "circuitBreakers ?s (url cfg) = Some ?b" by simp
    have "update_breaker_on_error ?s t err = update_breaker_on_error st' t err"
      using cfg ne first
      by (auto simp: update_breaker_on_error_def getCircuitBreaker_def Let_def split: option.splits)
    then show ?thesis
      using update_breaker_on_error_counts [OF b ne cfg first, of t]
      by (simp add: getCircuitBreaker_def)
  qed
  have handler: "failureCount (fst (getCircuitBreaker (store (response_error st now later net err)) (url cfg))) =
              failureCount (fst (getCircuitBreaker st (url cfg))) + 1"
    by (simp add: response_error_store counted)
  have whole: "failureCount (fst (getCircuitBreaker (store (dispatch st clk net cfg)) (url cfg))) =
              failureCount (fst (getCircuitBreaker st (url cfg))) + 1"
    if "fst (request_interceptor st (t_request clk) cfg) = Inr cfg"
  proof -
    let ?st1 = "snd (request_interceptor st (t_request clk) cfg)"
    have adm: "request_interceptor st (t_request clk) cfg = (Inr cfg, ?st1)"
      using that by (rule admitted_collapse)
    obtain b where b: "circuitBreakers ?st1 (url cfg) = Some b"
      and same: "failureCount b = failureCount (fst (getCircuitBreaker st (url cfg)))"
      using admitted_breaker [OF adm] by blast
    have "store (dispatch st clk net cfg) = update_breaker_on_error ?st1 (t_response clk) err"
      by (simp add: dispatch_rejected_call [OF adm snd] response_error_store)
    then show ?thesis
      using counted [of ?st1 "t_response clk"] b same by (simp add: getCircuitBreaker_present)
  qed
  show ?thesis
    using snd handler whole by blast
qed

text \<open>
  \<^verbatim>\<open>POST /expenses\<close> against a server that always answers 503: four live calls (the
  call and three retries), one failure counted.
\<close>

theorem failure_counted_once_witness:
  "endpoint_path (url (request POST ''/expenses'')) \<and>
   live_outcome (always (Reply 503 ''Service Unavailable'' None)) (request POST ''/expenses'') =
     Inl (AxiosError (request POST ''/expenses'')
            (Some \<lparr>data = None, status = Some 503, statusText = Some ''Service Unavailable'',
                    rconfig = Some (request POST ''/expenses'')\<rparr>)) \<and>
   fst (request_interceptor empty_dispatcher (t_request (instant 0)) (request POST ''/expenses'')) =
     Inr (request POST ''/expenses'') \<and>
   liveCalls (dispatch empty_dispatcher (instant 0) (always (Reply 503 ''Service Unavailable'' None))
                (request POST ''/expenses'')) = 4 \<and>
   failureCount (fst (getCircuitBreaker
       (store (dispatch empty_dispatcher (instant 0) (always (Reply 503 ''Service Unavailable'' None))
                 (request POST ''/expenses''))) (url (request POST ''/expenses'')))) =
     failureCount (fst (getCircuitBreaker empty_dispatcher (url (request POST ''/expenses'')))) + 1"
proof -
  let ?cfg = "request POST ''/expenses''"
  let ?net = "always (Reply 503 ''Service Unavailable'' None)"
  let ?e = "AxiosError ?cfg
            (Some \<lparr>data = None, status = Some 503, statusText = Some ''Service Unavailable'',
                    rconfig = Some ?cfg\<rparr>)"
  have h1: "endpoint_path (url ?cfg)" by code_simp
  have h2: "live_outcome ?net ?cfg = Inl ?e" by code_simp
  have h3: "status_ge_500 ?e \<and> status_lt_600 ?e \<or> isNetworkError ?e" by code_simp
  have h4: "fst (request_interceptor empty_dispatcher (t_request (instant 0)) ?cfg) = Inr ?cfg"
    by code_simp
  have h5: "liveCalls (dispatch empty_dispatcher (instant 0) ?net ?cfg) = 4" by code_simp
  show ?thesis
    using failure_counted_once [OF h1 h2 h3, of empty_dispatcher 0 0 "instant 0"] h1 h2 h4 h5
    by blast
qed

subsection \<open>C4: recording a success\<close>

text \<open>
  Claim C4, amended. When the first live attempt of a request is answered with a status
  from 200 to 299, the fulfilled handler hands the response on unchanged; if it finds the
  endpoint's breaker CLOSED or HALF_OPEN, the breaker is afterwards CLOSED with failure
  count 0 and the last success time stamped; and it stores the body in the cache under
  \<^verbatim>\<open>GET:path\<close> when the method is GET, the status is exactly 200 and the body is not
  empty, and leaves the cache as it was otherwise. A request to an endpoint path that is
  alone always finds its breaker CLOSED or HALF_OPEN, so its dispatch resolves with the
  response and leaves the breaker CLOSED with failure count 0.
\<close>

theorem first_attempt_success_recorded:
  "(circuitBreakers st (url cfg) = Some b \<and> state b \<noteq> OPEN \<longrightarrow>
      fst (response_success st now cfg r) = r \<and>
      circuitBreakers (snd (response_success st now cfg r)) (url cfg) =
        Some (b\<lparr>state := CLOSED, failureCount := 0, lastSuccessTime := Some now\<rparr>)) \<and>
   (method_of cfg = GET \<and> status r = Some 200 \<and> data r = Some p \<longrightarrow>
      responseCache (snd (response_success st now cfg r)) =
        (responseCache st)(cacheKey GET (url cfg) \<mapsto> \<lparr>cached_data = p, timestamp = now\<rparr>)) \<and>
   (method_of cfg \<noteq> GET \<or> status r \<noteq> Some 200 \<or> data r = None \<longrightarrow>
      responseCache (snd (response_success st now cfg r)) = responseCache st) \<and>
   (endpoint_path (url cfg) \<and> fst (request_interceptor st (t_request clk) cfg) = Inr cfg \<and>
    net 0 = Reply s phrase d \<and> 200 \<le> s \<and> s < 300 \<longrightarrow>
      dispatch st clk net cfg =
        \<lparr>returned = Resolved \<lparr>data = d, status = Some s, statusText = Some phrase, rconfig = Some cfg\<rparr>,
         store = snd (response_success (snd (request_interceptor st (t_request clk) cfg))
                        (t_response clk) cfg
                        \<lparr>data = d, status = Some s, statusText = Some phrase, rconfig = Some cfg\<rparr>),
         liveCalls = 1\<rparr> \<and>
      (\<exists>b1. circuitBreakers (store (dispatch st clk net cfg)) (url cfg) = Some b1 \<and>
            state b1 = CLOSED \<and> failureCount b1 = 0 \<and> lastSuccessTime b1 = Some (t_response clk)))"
proof -
  have a: "fst (response_success st now cfg r) = r \<and>
      circuitBreakers (snd (response_success st now cfg r)) (url cfg) =
        Some (b\<lparr>state := CLOSED, failureCount := 0, lastSuccessTime := Some now\<rparr>)"
    if "circuitBreakers st (url cfg) = Some b \<and> state b \<noteq> OPEN"
    using that response_success_breaker [of st cfg b now r] by simp
  have b: "responseCache (snd (response_success st now cfg r)) =
        (responseCache st)(cacheKey GET (url cfg) \<mapsto> \<lparr>cached_data = p, timestamp = now\<rparr>)"
    if "method_of cfg = GET \<and> status r = Some 200 \<and> data r = Some p"
    using that by (simp add: response_success_cache)
  have c: "responseCache (snd (response_success st now cfg r)) = responseCache st"
    if "method_of cfg \<noteq> GET \<or> status r \<noteq> Some 200 \<or> data r = None"
    using that by (auto simp: response_success_cache split: option.splits)
  have d: "dispatch st clk net cfg =
        \<lparr>returned = Resolved \<lparr>data = d, status = Some s, statusText = Some phrase, rconfig = Some cfg\<rparr>,
         store = snd (response_success (snd (request_interceptor st (t_request clk) cfg))
                        (t_response clk) cfg
                        \<lparr>data = d, status = Some s, statusText = Some phrase, rconfig = Some cfg\<rparr>),
         liveCalls = 1\<rparr> \<and>
      (\<exists>b1. circuitBreakers (store (dispatch st clk net cfg)) (url cfg) = Some b1 \<and>
            state b1 = CLOSED \<and> failureCount b1 = 0 \<and> lastSuccessTime b1 = Some (t_response clk))"
    if h: "endpoint_path (url cfg) \<and> fst (request_interceptor st (t_request clk) cfg) = Inr cfg \<and>
           net 0 = Reply s phrase d \<and> 200 \<le> s \<and> s < 300"
  proof -
    let ?st1 = "snd (request_interceptor st (t_request clk) cfg)"
    let ?r = "\<lparr>data = d, status = Some s, statusText = Some phrase, rconfig = Some cfg\<rparr>"
    have adm: "request_interceptor st (t_request clk) cfg = (Inr cfg, ?st1)"
      using h by (intro admitted_collapse) simp
    obtain b0 where b0: "circuitBreakers ?st1 (url cfg) = Some b0" and nopen: "state b0 \<noteq> OPEN"
      using admitted_breaker [OF adm] by blast
    have snd: "send net cfg 0 = Inr ?r"
      using h by (intro send_resolves) auto
    show ?thesis
      using dispatch_resolved_call [OF adm snd] response_success_breaker [OF b0 nopen]
      by simp
  qed
  show ?thesis
    using a b c d by blast
qed

text \<open>
  The first \<^verbatim>\<open>GET /settings\<close>, answered 200 with a body, and the same answer to a POST.
\<close>

theorem first_attempt_success_recorded_witness:
  "circuitBreakers (snd (request_interceptor empty_dispatcher 7 (request GET ''/settings'')))
     (url (request GET ''/settings'')) =
     Some \<lparr>state = CLOSED, failureCount = 0, lastFailureTime = None, lastSuccessTime = None\<rparr> \<and>
   circuitBreakers
     (snd (response_success (snd (request_interceptor empty_dispatcher 7 (request GET ''/settings''))) 9
             (request GET ''/settings'')
             \<lparr>data = Some [(''success'', JBool True)], status = Some 200, statusText = Some ''OK'',
              rconfig = Some (request GET ''/settings'')\<rparr>))
     (url (request GET ''/settings'')) =
     Some \<lparr>state = CLOSED, failureCount = 0, lastFailureTime = None, lastSuccessTime = Some 9\<rparr> \<and>
   method_of (request GET ''/settings'') = GET \<and>
   responseCache
     (snd (response_success (snd (request_interceptor empty_dispatcher 7 (request GET ''/settings''))) 9
             (request GET ''/settings'')
             \<lparr>data = Some [(''success'', JBool True)], status = Some 200, statusText = Some ''OK'',
              rconfig = Some (request GET ''/settings'')\<rparr>))
     (cacheKey GET (url (request GET ''/settings''))) =
     Some \<lparr>cached_data = [(''success'', JBool True)], timestamp = 9\<rparr> \<and>
   method_of (request POST ''/settings'') \<noteq> GET \<and>
   responseCache
     (snd (response_success empty_dispatcher 9 (request POST ''/settings'')
             \<lparr>data = Some [(''success'', JBool True)], status = Some 200, statusText = Some ''OK'',
              rconfig = Some (request POST ''/settings'')\<rparr>)) = responseCache empty_dispatcher \<and>
   endpoint_path (url (request GET ''/settings'')) \<and>
   fst (request_interceptor empty_dispatcher (t_request (instant 7)) (request GET ''/settings'')) =
     Inr (request GET ''/settings'') \<and>
   returned (dispatch empty_dispatcher (instant 7)
               (always (Reply 200 ''OK'' (Some [(''success'', JBool True)]))) (request GET ''/settings'')) =
     Resolved \<lparr>data = Some [(''success'', JBool True)], status = Some 200, statusText = Some ''OK'',
               rconfig = Some (request GET ''/settings'')\<rparr>"
proof -
  let ?G = "request GET ''/settings''"
  let ?P = "request POST ''/settings''"
  let ?S = "snd (request_interceptor empty_dispatcher 7 ?G)"
  let ?b = "\<lparr>state = CLOSED, failureCount = 0, lastFailureTime = None, lastSuccessTime = None\<rparr>"
  let ?R = "\<lparr>data = Some [(''success'', JBool True)], status = Some 200, statusText = Some ''OK'',
              rconfig = Some ?G\<rparr>"
  let ?RP = "\<lparr>data = Some [(''success'', JBool True)], status = Some 200, statusText = Some ''OK'',
              rconfig = Some ?P\<rparr>"
  let ?net = "always (Reply 200 ''OK'' (Some [(''success'', JBool True)]))"
  have h1: "circuitBreakers ?S (url ?G) = Some ?b" by code_simp
  have h2: "state ?b \<noteq> OPEN" by simp
  have h3: "method_of ?G = GET" by code_simp
  have h4: "status ?R = Some 200 \<and> data ?R = Some [(''success'', JBool True)]" by simp
  have h5: "method_of ?P \<noteq> GET" by code_simp
  have h6: "endpoint_path (url ?G)" by code_simp
  have h7: "fst (request_interceptor empty_dispatcher (t_request (instant 7)) ?G) = Inr ?G" by code_simp
  have h8: "?net 0 = Reply 200 ''OK'' (Some [(''success'', JBool True)]) \<and> (200::nat) \<le> 200 \<and> (200::nat) < 300"
    by (simp add: always_def)
  have k: "url ?G = ''/settings''" by (simp add: request_def)
  have t1: "circuitBreakers (snd (response_success ?S 9 ?G ?R)) (url ?G) =
              Some (?b\<lparr>state := CLOSED, failureCount := 0, lastSuccessTime := Some 9\<rparr>) \<and>
            responseCache (snd (response_success ?S 9 ?G ?R)) =
              (responseCache ?S)(cacheKey GET (url ?G) \<mapsto>
                 \<lparr>cached_data = [(''success'', JBool True)], timestamp = 9\<rparr>)"
    using first_attempt_success_recorded
            [where st = ?S and cfg = ?G and b = ?b and now = 9 and r = ?R
               and p = "[(''success'', JBool True)]"] h1 h2 h3 h4
    by blast
  have t2: "responseCache (snd (response_success empty_dispatcher 9 ?P ?RP)) = responseCache empty_dispatcher"
    using first_attempt_success_recorded
            [where st = empty_dispatcher and cfg = ?P and now = 9 and r = ?RP] h5
    by blast
  have t3: "returned (dispatch empty_dispatcher (instant 7) ?net ?G) = Resolved ?R"
    using first_attempt_success_recorded
            [where st = empty_dispatcher and cfg = ?G and clk = "instant 7" and net = ?net
               and s = 200 and phrase = "''OK''" and d = "Some [(''success'', JBool True)]"] h6 h7 h8
    by simp
  show ?thesis
    using h1 h3 h5 h6 h7 t1 t2 t3 by simp
qed

text \<open>
  Claim C4 as stated fails three times. A \<^verbatim>\<open>GET /expenses\<close> answered 503 and then, on the
  first retry, 200 resolves with the retry's response, but the fulfilled handler never ran:
  the breaker holds one failure and no success time, and nothing is cached. A
  \<^verbatim>\<open>GET /expenses\<close> answered 203 with a body is not cached, since the handler caches
  status 200 only. And with four failures on record and two requests in flight, the 503 to
  one opens the breaker, and the 200 to the other then finds it OPEN and records nothing.
\<close>

theorem success_not_recorded:
  "returned (dispatch empty_dispatcher (instant 0)
               (first_then (Reply 503 ''Service Unavailable'' None)
                  (Reply 200 ''OK'' (Some [(''success'', JBool True)])))
               (request GET ''/expenses'')) =
     Resolved \<lparr>data = Some [(''success'', JBool True)], status = Some 200, statusText = Some ''OK'',
               rconfig = Some (request GET ''/expenses'')\<rparr> \<and>
   circuitBreakers
     (store (dispatch empty_dispatcher (instant 0)
               (first_then (Reply 503 ''Service Unavailable'' None)
                  (Reply 200 ''OK'' (Some [(''success'', JBool True)])))
               (request GET ''/expenses''))) ''/expenses'' =
     Some \<lparr>state = CLOSED, failureCount = 1, lastFailureTime = Some 0, lastSuccessTime = None\<rparr> \<and>
   responseCache
     (store (dispatch empty_dispatcher (instant 0)
               (first_then (Reply 503 ''Service Unavailable'' None)
                  (Reply 200 ''OK'' (Some [(''success'', JBool True)])))
               (request GET ''/expenses''))) (cacheKey GET ''/expenses'') = None \<and>
   returned (dispatch empty_dispatcher (instant 0)
               (always (Reply 203 ''Non-Authoritative Information'' (Some [(''success'', JBool True)])))
               (request GET ''/expenses'')) =
     Resolved \<lparr>data = Some [(''success'', JBool True)], status = Some 203,
               statusText = Some ''Non-Authoritative Information'',
               rconfig = Some (request GET ''/expenses'')\<rparr> \<and>
   responseCache
     (store (dispatch empty_dispatcher (instant 0)
               (always (Reply 203 ''Non-Authoritative Information'' (Some [(''success'', JBool True)])))
               (request GET ''/expenses'')))
     (cacheKey GET ''/expenses'') = None \<and>
   circuitBreakers
     (two_in_flight
        (run empty_dispatcher
           (replicate 4 (instant 0, always (Reply 503 ''Service Unavailable'' None),
                         request GET ''/expenses'')))
        10 (request GET ''/expenses'')) ''/expenses'' =
     Some \<lparr>state = CLOSED, failureCount = 4, lastFailureTime = Some 0, lastSuccessTime = None\<rparr> \<and>
   circuitBreakers
     (snd (response_success
             (update_breaker_on_error
                (two_in_flight
                   (run empty_dispatcher
                      (replicate 4 (instant 0, always (Reply 503 ''Service Unavailable'' None),
                                    request GET ''/expenses'')))
                   10 (request GET ''/expenses''))
                20 (http_error (request GET ''/expenses'') 503 ''Service Unavailable''))
             30 (request GET ''/expenses'')
             \<lparr>data = Some [(''success'', JBool True)], status = Some 200, statusText = Some ''OK'',
              rconfig = Some (request GET ''/expenses'')\<rparr>)) ''/expenses'' =
     Some \<lparr>state = OPEN, failureCount = 5, lastFailureTime = Some 20, lastSuccessTime = None\<rparr>"
  by code_simp

subsection \<open>C5: the cache under an open breaker\<close>

text \<open>
  Claim C5. For a GET request whose \<^verbatim>\<open>GET:path\<close> cache entry is younger than
  \<^verbatim>\<open>CACHE_TTL\<close>, while the breaker of the path is OPEN and not yet due for a reset, the
  dispatch makes no live call, changes no store, and resolves with status 200 and the
  cached body with \<^verbatim>\<open>fromCache: true\<close> and \<^verbatim>\<open>cacheAge\<close> added.
\<close>

theorem open_breaker_serves_cache:
  assumes get: "method_of cfg = GET"
    and br: "circuitBreakers st (url cfg) = Some b"
    and op: "state b = OPEN"
    and cool: "\<not> shouldAttemptReset (t_request clk) b"
    and hit: "responseCache st (cacheKey GET (url cfg)) = Some c"
    and fresh: "t_request clk - timestamp c < CACHE_TTL"
  shows "\<exists>p. dispatch st clk net cfg =
           \<lparr>returned = Resolved \<lparr>data = Some p, status = Some 200,
                                 statusText = Some ''OK (Cached)'', rconfig = Some cfg\<rparr>,
            store = st, liveCalls = 0\<rparr> \<and>
         map_of p = (map_of (cached_data c))
                      (''fromCache'' \<mapsto> JBool True,
                       ''cacheAge'' \<mapsto> JNum (t_request clk - timestamp c))"
proof -
  let ?p = "set_prop ''cacheAge'' (JNum (t_request clk - timestamp c))
              (set_prop ''fromCache'' (JBool True) (cached_data c))"
  have cached: "getCachedResponse st (t_request clk) (cacheKey GET (url cfg)) = Some ?p"
    using hit fresh by (simp add: getCachedResponse_def)
  have "check_circuit st (t_request clk) cfg =
          (Some (MockResponse \<lparr>data = Some ?p, status = Some 200,
                               statusText = Some ''OK (Cached)'', rconfig = Some cfg\<rparr>), st)"
    using get op cool cached by (simp add: check_circuit_def getCircuitBreaker_present [OF br])
  then have "dispatch st clk net cfg =
          \<lparr>returned = Resolved \<lparr>data = Some ?p, status = Some 200,
                                statusText = Some ''OK (Cached)'', rconfig = Some cfg\<rparr>,
           store = st, liveCalls = 0\<rparr>"
    by (simp add: dispatch_def request_interceptor_def response_error_mock)
  moreover have "map_of ?p = (map_of (cached_data c))
                      (''fromCache'' \<mapsto> JBool True,
                       ''cacheAge'' \<mapsto> JNum (t_request clk - timestamp c))"
    by (simp add: map_of_set_prop)
  ultimately show ?thesis by blast
qed

text \<open>
  \<^verbatim>\<open>GET /settings\<close> succeeded at clock 0 and failed five times at clock 1000; the call at
  clock 2000 is served from the cache.
\<close>

theorem open_breaker_serves_cache_witness:
  "method_of (request GET ''/settings'') = GET \<and>
   circuitBreakers settings_cached_then_down (url (request GET ''/settings'')) =
     Some \<lparr>state = OPEN, failureCount = 5, lastFailureTime = Some 1000, lastSuccessTime = Some 0\<rparr> \<and>
   \<not> shouldAttemptReset (t_request (instant 2000))
       \<lparr>state = OPEN, failureCount = 5, lastFailureTime = Some 1000, lastSuccessTime = Some 0\<rparr> \<and>
   responseCache settings_cached_then_down (cacheKey GET (url (request GET ''/settings''))) =
     Some \<lparr>cached_data = [(''success'', JBool True)], timestamp = 0\<rparr> \<and>
   (\<exists>p. dispatch settings_cached_then_down (instant 2000) (always NoReply) (request GET ''/settings'') =
        \<lparr>returned = Resolved \<lparr>data = Some p, status = Some 200,
                              statusText = Some ''OK (Cached)'',
                              rconfig = Some (request GET ''/settings'')\<rparr>,
         store = settings_cached_then_down, liveCalls = 0\<rparr> \<and>
        map_of p = [''success'' \<mapsto> JBool True, ''fromCache'' \<mapsto> JBool True, ''cacheAge'' \<mapsto> JNum 2000])"
proof -
  let ?b = "\<lparr>state = OPEN, failureCount = 5, lastFailureTime = Some 1000, lastSuccessTime = Some 0\<rparr>"
  let ?c = "\<lparr>cached_data = [(''success'', JBool True)], timestamp = 0\<rparr>"
  have h1: "method_of (request GET ''/settings'') = GET" by code_simp
  have h2: "circuitBreakers settings_cached_then_down (url (request GET ''/settings'')) = Some ?b"
    by code_simp
  have h3: "state ?b = OPEN" by simp
  have h4: "\<not> shouldAttemptReset (t_request (instant 2000)) ?b" by code_simp
  have h5: "responseCache settings_cached_then_down (cacheKey GET (url (request GET ''/settings''))) = Some ?c"
    by code_simp
  have h6: "t_request (instant 2000) - timestamp ?c < CACHE_TTL" by code_simp
  show ?thesis
    using open_breaker_serves_cache [OF h1 h2 h3 h4 h5 h6, of "always NoReply"] h1 h2 h4 h5
    by (simp add: instant_def)
qed

subsection \<open>C6: throttled requests\<close>

text \<open>
  Claim C6, amended. When the window of the path already counts ten calls or more and is
  less than a second old, the dispatch makes no live call. If the breaker check lets the
  request pass, it resolves from the cache when that holds a valid entry, otherwise from
  the window's last response when one was recorded, and otherwise it is rejected with the
  cancellation \<^verbatim>\<open>Circuit breaker: Too many calls to ...\<close>; the canned fallback is not
  consulted.
\<close>

theorem throttled_request_resolution:
  assumes win: "recentCalls st (url cfg) = Some w"
    and inside: "t_request clk - time w < THROTTLE_WINDOW"
    and full: "MAX_CALLS_PER_WINDOW \<le> count w"
  shows "liveCalls (dispatch st clk net cfg) = 0 \<and>
         (fst (check_circuit st (t_request clk) cfg) = None \<longrightarrow>
          returned (dispatch st clk net cfg) =
            (case getCachedResponse st (t_request clk) (cacheKey (method_of cfg) (url cfg)) of
               Some p \<Rightarrow>
                 Resolved \<lparr>data = Some p, status = Some 200,
                           statusText = Some ''OK (Cached)'', rconfig = Some cfg\<rparr>
             | None \<Rightarrow>
                 (case lastResponse w of
                    Some p \<Rightarrow>
                      Resolved \<lparr>data = Some p, status = Some 200,
                                statusText = Some ''OK (Throttled Cache)'', rconfig = Some cfg\<rparr>
                  | None \<Rightarrow>
                      Rejected \<lparr>etype = CLIENT, estatus = None, eendpoint = None, emethod = GET,
                                circuitState = None, fallbackAttempted = True,
                                original = Cancel (''Circuit breaker: Too many calls to '' @ url cfg)\<rparr>)))"
proof (cases "fst (check_circuit st (t_request clk) cfg)")
  case (Some e)
  then obtain r where "e = MockResponse r"
    using check_circuit_throws_mock by blast
  with Some show ?thesis
    by (cases "check_circuit st (t_request clk) cfg")
       (simp add: dispatch_def request_interceptor_def response_error_mock)
next
  case None
  let ?st1 = "snd (check_circuit st (t_request clk) cfg)"
  have thr: "fst (throttle ?st1 (t_request clk) cfg) =
      Some (case getCachedResponse st (t_request clk) (cacheKey (method_of cfg) (url cfg)) of
                   Some p \<Rightarrow>
                     MockResponse \<lparr>data = Some p, status = Some 200,
                                   statusText = Some ''OK (Cached)'', rconfig = Some cfg\<rparr>
                 | None \<Rightarrow>
                     (case lastResponse w of
                        Some p \<Rightarrow>
                          MockResponse \<lparr>data = Some p, status = Some 200,
                                        statusText = Some ''OK (Throttled Cache)'', rconfig = Some cfg\<rparr>
                      | None \<Rightarrow> Cancel (''Circuit breaker: Too many calls to '' @ url cfg)))"
    using throttle_full [of ?st1 cfg w "t_request clk"] win inside full
      getCachedResponse_cong [of ?st1 st]
    by simp
  show ?thesis
    using None thr
    by (cases "check_circuit st (t_request clk) cfg";
        cases "throttle ?st1 (t_request clk) cfg")
       (auto simp: dispatch_def request_interceptor_def response_error_mock response_error_cancel
          split: option.splits)
qed

text \<open>
  Ten \<^verbatim>\<open>POST /expenses\<close> answered 201 with a body at clock 0; the eleventh, at clock 500,
  resolves with that body and no live call.
\<close>

theorem throttled_request_resolution_witness:
  "recentCalls (window_full (request POST ''/expenses'') (Reply 201 ''Created'' (Some [(''success'', JBool True)])))
     (url (request POST ''/expenses'')) =
     Some \<lparr>time = 0, count = 10, lastResponse = Some [(''success'', JBool True)]\<rparr> \<and>
   t_request (instant 500) - 0 < THROTTLE_WINDOW \<and>
   MAX_CALLS_PER_WINDOW \<le> 10 \<and>
   fst (check_circuit (window_full (request POST ''/expenses'') (Reply 201 ''Created'' (Some [(''success'', JBool True)])))
          (t_request (instant 500)) (request POST ''/expenses'')) = None \<and>
   liveCalls (dispatch (window_full (request POST ''/expenses'') (Reply 201 ''Created'' (Some [(''success'', JBool True)])))
                (instant 500) (always NoReply) (request POST ''/expenses'')) = 0 \<and>
   returned (dispatch (window_full (request POST ''/expenses'') (Reply 201 ''Created'' (Some [(''success'', JBool True)])))
               (instant 500) (always NoReply) (request POST ''/expenses'')) =
     Resolved \<lparr>data = Some [(''success'', JBool True)], status = Some 200,
               statusText = Some ''OK (Throttled Cache)'', rconfig = Some (request POST ''/expenses'')\<rparr>"
proof -
  let ?st = "window_full (request POST ''/expenses'') (Reply 201 ''Created'' (Some [(''success'', JBool True)]))"
  let ?w = "\<lparr>time = 0, count = 10, lastResponse = Some [(''success'', JBool True)]\<rparr>"
  have h1: "recentCalls ?st (url (request POST ''/expenses'')) = Some ?w" by code_simp
  have h2: "t_request (instant 500) - time ?w < THROTTLE_WINDOW" by code_simp
  have h3: "MAX_CALLS_PER_WINDOW \<le> count ?w" by code_simp
  have h4: "fst (check_circuit ?st (t_request (instant 500)) (request POST ''/expenses'')) = None"
    by code_simp
  have h5: "getCachedResponse ?st (t_request (instant 500))
              (cacheKey (method_of (request POST ''/expenses'')) (url (request POST ''/expenses''))) = None"
    by code_simp
  show ?thesis
    using throttled_request_resolution [OF h1 h2 h3, of "always NoReply"] h1 h2 h3 h4 h5
    by simp
qed

text \<open>
  Claim C6 as stated fails: after ten \<^verbatim>\<open>GET /reports\<close> answered 404 within the window
  there is neither a cache entry nor a last response, and the eleventh is rejected.
\<close>

theorem throttled_request_rejected:
  "liveCalls (dispatch (window_full (request GET ''/reports'') (Reply 404 ''Not Found'' None)) (instant 500)
                (always (Reply 200 ''OK'' None)) (request GET ''/reports'')) = 0 \<and>
   returned (dispatch (window_full (request GET ''/reports'') (Reply 404 ''Not Found'' None)) (instant 500)
               (always (Reply 200 ''OK'' None)) (request GET ''/reports'')) =
     Rejected \<lparr>etype = CLIENT, estatus = None, eendpoint = None, emethod = GET,
               circuitState = None, fallbackAttempted = True,
               original = Cancel ''Circuit breaker: Too many calls to /reports''\<rparr>"
  by code_simp

subsection \<open>C7: what identifies the per-endpoint state\<close>

text \<open>
  Claim C7, amended. Breakers and throttle windows are identified by the path alone: two
  requests with the same path leave the request interceptor with the same stores whatever
  their methods, the response handlers write the same breaker and window for both, and
  the only breaker and window the request interceptor can create are those of the path.
  Only the cache key is the composite \<^verbatim>\<open>method:path\<close>, distinct for distinct methods.
\<close>

theorem breaker_and_window_keyed_by_path:
  assumes same: "url cfg1 = url cfg2"
  shows "snd (request_interceptor st now cfg1) = snd (request_interceptor st now cfg2) \<and>
         circuitBreakers (snd (response_success st now cfg1 r)) =
           circuitBreakers (snd (response_success st now cfg2 r)) \<and>
         recentCalls (snd (response_success st now cfg1 r)) =
           recentCalls (snd (response_success st now cfg2 r)) \<and>
         update_breaker_on_error st now (AxiosError cfg1 x) =
           update_breaker_on_error st now (AxiosError cfg2 x) \<and>
         dom (circuitBreakers (snd (request_interceptor st now cfg1))) =
           insert (url cfg1) (dom (circuitBreakers st)) \<and>
         dom (recentCalls (snd (request_interceptor st now cfg1))) \<subseteq>
           insert (url cfg1) (dom (recentCalls st)) \<and>
         (cacheKey m1 (url cfg1) = cacheKey m2 (url cfg2) \<longleftrightarrow> m1 = m2)"
proof -
  have a: "snd (request_interceptor st now cfg1) = snd (request_interceptor st now cfg2)"
    using check_circuit_path [OF same, of st now]
      throttle_path [OF same, of "snd (check_circuit st now cfg2)" now]
    by (simp add: request_interceptor_store)
  have b: "circuitBreakers (snd (response_success st now cfg1 r)) =
           circuitBreakers (snd (response_success st now cfg2 r))"
    using same
    by (auto simp: response_success_def Let_def getCircuitBreaker_def put_breaker_def
        cacheResponse_def split: prod.splits option.splits)
  have c: "recentCalls (snd (response_success st now cfg1 r)) =
           recentCalls (snd (response_success st now cfg2 r))"
    using same
    by (auto simp: response_success_def Let_def getCircuitBreaker_def put_breaker_def
        cacheResponse_def split: prod.splits option.splits)
  have d: "update_breaker_on_error st now (AxiosError cfg1 x) =
           update_breaker_on_error st now (AxiosError cfg2 x)"
    using same
    by (cases x)
       (auto simp: update_breaker_on_error_def status_ge_500_def Let_def split: prod.splits)
  have e: "dom (circuitBreakers (snd (request_interceptor st now cfg1))) =
           insert (url cfg1) (dom (circuitBreakers st))"
    by (simp add: request_interceptor_store check_circuit_dom)
  have f: "dom (recentCalls (snd (request_interceptor st now cfg1))) \<subseteq>
           insert (url cfg1) (dom (recentCalls st))"
    by (auto simp: request_interceptor_store throttle_dom)
  have g: "cacheKey m1 (url cfg1) = cacheKey m2 (url cfg2) \<longleftrightarrow> m1 = m2"
    using same cacheKey_inj [of m1 "url cfg1" m2 "url cfg2"] by auto
  show ?thesis
    using a b c d e f g by blast
qed

text \<open>
  \<^verbatim>\<open>GET /settings\<close> and \<^verbatim>\<open>POST /settings\<close> on the empty store.
\<close>

theorem breaker_and_window_keyed_by_path_witness:
  "url (request GET ''/settings'') = url (request POST ''/settings'') \<and>
   snd (request_interceptor empty_dispatcher 0 (request GET ''/settings'')) =
     snd (request_interceptor empty_dispatcher 0 (request POST ''/settings'')) \<and>
   update_breaker_on_error empty_dispatcher 0 (AxiosError (request GET ''/settings'') None) =
     update_breaker_on_error empty_dispatcher 0 (AxiosError (request POST ''/settings'') None) \<and>
   cacheKey GET (url (request GET ''/settings'')) \<noteq> cacheKey POST (url (request POST ''/settings''))"
proof -
  have h: "url (request GET ''/settings'') = url (request POST ''/settings'')"
    by (simp add: request_def)
  have "GET \<noteq> POST" by simp
  then show ?thesis
    using breaker_and_window_keyed_by_path
            [OF h, of empty_dispatcher 0
               "\<lparr>data = None, status = Some 204, statusText = None, rconfig = None\<rparr>" None GET POST] h
    by blast
qed

text \<open>
  Claim C7 as stated fails: five failed \<^verbatim>\<open>POST /settings\<close> open the breaker that
  \<^verbatim>\<open>GET /settings\<close> consults, so the GET that would have gone to the network is
  short-circuited; and a POST and a GET of the same path are counted in one window.
\<close>

theorem post_failures_trip_get_breaker:
  "liveCalls (dispatch empty_dispatcher (instant 100) (always (Reply 200 ''OK'' None))
                (request GET ''/settings'')) = 1 \<and>
   liveCalls (dispatch (tripped (request POST ''/settings'')) (instant 100) (always (Reply 200 ''OK'' None))
                (request GET ''/settings'')) = 0 \<and>
   recentCalls
     (run empty_dispatcher
        [(instant 0, always (Reply 200 ''OK'' None), request POST ''/settings''),
         (instant 0, always (Reply 200 ''OK'' None), request GET ''/settings'')]) ''/settings'' =
     Some \<lparr>time = 0, count = 2, lastResponse = None\<rparr>"
  by code_simp

subsection \<open>C8: client errors\<close>

text \<open>
  Claim C8. Let \<open>err\<close> be the error for an answer with a status from 400 to 499. Whatever
  store the rejected handler finds when it is entered with \<open>err\<close>, a breaker lookup gives
  the same breaker for every endpoint afterwards as before, and the breakers are exactly
  as before when the endpoint has its breaker already (as it has once its request went
  through the interceptor); the handler makes no retry call and rejects with \<open>err\<close>. When
  such an answer comes to a retry attempt, \<^verbatim>\<open>retryRequest\<close> stops at that attempt with
  \<open>err\<close>; and no answer to a retry changes a store, since the stores after the handler are
  those after its breaker update for the error it was entered with. For a request that is
  alone and whose first answer is such a status, the breakers after the dispatch are those
  the request interceptor left, and one live call was made.
\<close>

theorem client_error_leaves_breaker:
  assumes lo: "400 \<le> s" and hi: "s < 500"
    and err: "err = AxiosError cfg
                (Some \<lparr>data = d, status = Some s, statusText = Some phrase, rconfig = Some cfg\<rparr>)"
  shows "fst (getCircuitBreaker (store (response_error st now later net err)) ep) =
           fst (getCircuitBreaker st ep) \<and>
         (circuitBreakers st (url cfg) \<noteq> None \<longrightarrow>
            circuitBreakers (store (response_error st now later net err)) = circuitBreakers st) \<and>
         liveCalls (response_error st now later net err) = 0 \<and>
         (\<exists>e. returned (response_error st now later net err) = Rejected e \<and> original e = err) \<and>
         (net attempt = Reply s phrase d \<longrightarrow> retryRequest net cfg attempt = (Inl err, attempt)) \<and>
         store (response_error st now later net first_err) =
           update_breaker_on_error st now first_err \<and>
         (request_interceptor st (t_request clk) cfg = (Inr cfg, st1) \<and> net 0 = Reply s phrase d \<longrightarrow>
            circuitBreakers (store (dispatch st clk net cfg)) = circuitBreakers st1 \<and>
            liveCalls (dispatch st clk net cfg) = 1)"
proof -
  let ?out = "response_error st now later net err"
  have no5: "\<not> status_ge_500 err"
    using hi by (simp add: err status_ge_500_def)
  have upd: "update_breaker_on_error st now err =
               (if url cfg = [] then st else snd (getCircuitBreaker st (url cfg)))"
    using no5 by (simp add: update_breaker_on_error_def err split_beta)
  have a1: "fst (getCircuitBreaker (store ?out) ep) = fst (getCircuitBreaker st ep)"
    by (simp add: response_error_store upd getCircuitBreaker_again)
  have a2: "circuitBreakers (store ?out) = circuitBreakers st"
    if "circuitBreakers st (url cfg) \<noteq> None"
    using that by (auto simp: response_error_store upd getCircuitBreaker_def)
  have settled: "?out = settle (update_breaker_on_error st now err) later err err 0"
    using no5 by (simp add: response_error_def err Let_def)
  have nofb: "fallback_strategies st' t err err = None" for st' t
    using hi by (simp add: fallback_strategies_def err status_ge_500_def)
  have a3: "liveCalls ?out = 0"
    and a4: "\<exists>e. returned ?out = Rejected e \<and> original e = err"
    by (auto simp: settled settle_def nofb enhancedError_def Let_def split: prod.splits option.splits)
  have b: "retryRequest net cfg attempt = (Inl err, attempt)"
    if "net attempt = Reply s phrase d"
  proof -
    have "send net cfg attempt = Inl err"
      unfolding err using that lo by (intro send_rejects) auto
    then show ?thesis using no5 by (rule retryRequest_stops)
  qed
  have c: "circuitBreakers (store (dispatch st clk net cfg)) = circuitBreakers st1 \<and>
           liveCalls (dispatch st clk net cfg) = 1"
    if adm: "request_interceptor st (t_request clk) cfg = (Inr cfg, st1)"
      and rep: "net 0 = Reply s phrase d"
  proof -
    let ?o1 = "response_error st1 (t_response clk) (t_settled clk) net err"
    obtain b where b1: "circuitBreakers st1 (url cfg) = Some b"
      using admitted_breaker [OF adm] by blast
    have snd: "send net cfg 0 = Inl err"
      unfolding err using rep lo by (intro send_rejects) auto
    have d: "dispatch st clk net cfg = ?o1\<lparr>liveCalls := 1 + liveCalls ?o1\<rparr>"
      by (rule dispatch_rejected_call [OF adm snd])
    have upd1: "update_breaker_on_error st1 (t_response clk) err = st1"
      using no5 b1 by (simp add: update_breaker_on_error_def err getCircuitBreaker_present)
    have o1: "?o1 = settle st1 (t_settled clk) err err 0"
      using no5 by (simp add: response_error_def err Let_def upd1 [unfolded err])
    have "liveCalls ?o1 = 0"
      by (simp add: o1 settle_def nofb Let_def split_beta)
    then show ?thesis
      by (simp add: d response_error_store upd1)
  qed
  have d: "store (response_error st now later net first_err) =
             update_breaker_on_error st now first_err"
    by (rule response_error_store)
  show ?thesis
    using a1 a2 a3 a4 b c d by blast
qed

text \<open>
  An answer 401 to \<^verbatim>\<open>POST /expenses\<close>: as the first answer (one live call), and as the
  answer to the first retry after a 503 (two live calls, the retries stop).
\<close>

theorem client_error_leaves_breaker_witness:
  "(400::nat) \<le> 401 \<and> (401::nat) < 500 \<and>
   circuitBreakers (tripped (request POST ''/expenses'')) (url (request POST ''/expenses'')) \<noteq> None \<and>
   circuitBreakers
     (store (response_error (tripped (request POST ''/expenses'')) 50 60
        (always NoReply)
        (AxiosError (request POST ''/expenses'')
           (Some \<lparr>data = None, status = Some 401, statusText = Some ''Unauthorized'',
                   rconfig = Some (request POST ''/expenses'')\<rparr>)))) =
     circuitBreakers (tripped (request POST ''/expenses'')) \<and>
   first_then (Reply 503 ''Service Unavailable'' None) (Reply 401 ''Unauthorized'' None) 1 =
     Reply 401 ''Unauthorized'' None \<and>
   retryRequest (first_then (Reply 503 ''Service Unavailable'' None) (Reply 401 ''Unauthorized'' None))
     (request POST ''/expenses'') 1 =
     (Inl (AxiosError (request POST ''/expenses'')
             (Some \<lparr>data = None, status = Some 401, statusText = Some ''Unauthorized'',
                     rconfig = Some (request POST ''/expenses'')\<rparr>)), 1) \<and>
   liveCalls (dispatch empty_dispatcher (instant 0)
                (first_then (Reply 503 ''Service Unavailable'' None) (Reply 401 ''Unauthorized'' None))
                (request POST ''/expenses'')) = 2 \<and>
   fst (request_interceptor empty_dispatcher (t_request (instant 0)) (request POST ''/expenses'')) =
     Inr (request POST ''/expenses'') \<and>
   always (Reply 401 ''Unauthorized'' None) 0 = Reply 401 ''Unauthorized'' None \<and>
   liveCalls (dispatch empty_dispatcher (instant 0) (always (Reply 401 ''Unauthorized'' None))
                (request POST ''/expenses'')) = 1"
proof -
  let ?cfg = "request POST ''/expenses''"
  let ?err = "AxiosError ?cfg
           (Some \<lparr>data = None, status = Some 401, statusText = Some ''Unauthorized'',
                   rconfig = Some ?cfg\<rparr>)"
  let ?net = "first_then (Reply 503 ''Service Unavailable'' None) (Reply 401 ''Unauthorized'' None)"
  have h1: "(400::nat) \<le> 401" and h2: "(401::nat) < 500" by simp_all
  have h3: "circuitBreakers (tripped ?cfg) (url ?cfg) \<noteq> None" by code_simp
  have h4: "?net 1 = Reply 401 ''Unauthorized'' None" by (simp add: first_then_def)
  have h5: "fst (request_interceptor empty_dispatcher (t_request (instant 0)) ?cfg) = Inr ?cfg"
    by code_simp
  have h6: "always (Reply 401 ''Unauthorized'' None) 0 = Reply 401 ''Unauthorized'' None"
    by (simp add: always_def)
  have h7: "liveCalls (dispatch empty_dispatcher (instant 0) ?net ?cfg) = 2" by code_simp
  have t1: "circuitBreakers (store (response_error (tripped ?cfg) 50 60 (always NoReply) ?err)) =
              circuitBreakers (tripped ?cfg)"
    using client_error_leaves_breaker
            [where s = 401 and cfg = ?cfg and d = None and phrase = "''Unauthorized''" and err = ?err
               and st = "tripped ?cfg" and now = 50 and later = 60 and net = "always NoReply",
             OF h1 h2 refl] h3
    by blast
  have t2: "retryRequest ?net ?cfg 1 = (Inl ?err, 1)"
    using client_error_leaves_breaker
            [where s = 401 and cfg = ?cfg and d = None and phrase = "''Unauthorized''" and err = ?err
               and net = ?net and attempt = 1, OF h1 h2 refl] h4
    by blast
  have t3: "liveCalls (dispatch empty_dispatcher (instant 0) (always (Reply 401 ''Unauthorized'' None))
                ?cfg) = 1"
    using client_error_leaves_breaker
            [where s = 401 and cfg = ?cfg and d = None and phrase = "''Unauthorized''" and err = ?err
               and st = empty_dispatcher and clk = "instant 0"
               and net = "always (Reply 401 ''Unauthorized'' None)"
               and ?st1.0 = "snd (request_interceptor empty_dispatcher (t_request (instant 0)) ?cfg)",
             OF h1 h2 refl] admitted_collapse [OF h5] h6
    by blast
  show ?thesis
    using h1 h2 h3 h4 h5 h6 h7 t1 t2 t3 by blast
qed

subsection \<open>C9: which stores a dispatch writes\<close>

text \<open>
  Claim C9, amended. A dispatch that an OPEN breaker short-circuits writes no store, and a
  dispatch writes the cache only when its first live reply is the answer 200 with a body
  to a GET; every other path leaves the cache alone (it may write both the breaker and
  the throttle window).
\<close>

theorem dispatch_store_writes:
  "(circuitBreakers st (url cfg) = Some b \<and> state b = OPEN \<and>
      \<not> shouldAttemptReset (t_request clk) b \<longrightarrow>
    store (dispatch st clk net cfg) = st) \<and>
   (responseCache (store (dispatch st clk net cfg)) \<noteq> responseCache st \<longrightarrow>
    fst (request_interceptor st (t_request clk) cfg) = Inr cfg \<and> method_of cfg = GET \<and>
    (\<exists>phrase p. net 0 = Reply 200 phrase (Some p)))"
proof (rule conjI; rule impI)
  assume "circuitBreakers st (url cfg) = Some b \<and> state b = OPEN \<and>
      \<not> shouldAttemptReset (t_request clk) b"
  then obtain r where "check_circuit st (t_request clk) cfg = (Some (MockResponse r), st)"
    using check_circuit_open [of st cfg b "t_request clk"] by blast
  then show "store (dispatch st clk net cfg) = st"
    by (simp add: dispatch_def request_interceptor_def response_error_mock)
next
  assume changed: "responseCache (store (dispatch st clk net cfg)) \<noteq> responseCache st"
  obtain x st1 where ri: "request_interceptor st (t_request clk) cfg = (x, st1)"
    by (cases "request_interceptor st (t_request clk) cfg")
  have c1: "responseCache st1 = responseCache st"
    using request_interceptor_cache [of st "t_request clk" cfg] ri by simp
  show "fst (request_interceptor st (t_request clk) cfg) = Inr cfg \<and> method_of cfg = GET \<and>
    (\<exists>phrase p. net 0 = Reply 200 phrase (Some p))"
  proof (cases x)
    case (Inl e)
    then have "responseCache (store (dispatch st clk net cfg)) = responseCache st"
      using dispatch_thrown [of st clk cfg e net] ri c1 by simp
    with changed show ?thesis by simp
  next
    case (Inr cfg1)
    then have adm: "request_interceptor st (t_request clk) cfg = (Inr cfg1, st1)"
      using ri by simp
    have cfg1: "cfg1 = cfg"
      by (rule request_interceptor_admits(1) [OF adm])
    show ?thesis
    proof (cases "send net cfg 0")
      case (Inl e)
      then have "responseCache (store (dispatch st clk net cfg)) = responseCache st"
        using c1 by (simp add: dispatch_rejected_call [OF adm] response_error_store)
      with changed show ?thesis by simp
    next
      case (Inr r)
      then have "responseCache (snd (response_success st1 (t_response clk) cfg r)) \<noteq> responseCache st1"
        using changed c1 by (simp add: dispatch_resolved_call [OF adm])
      then have "method_of cfg = GET \<and> status r = Some 200 \<and> (\<exists>p. data r = Some p)"
        by (auto simp: response_success_cache split: option.splits if_splits)
      moreover have "status r = Some 200 \<and> data r = Some p \<Longrightarrow>
                     \<exists>phrase. net 0 = Reply 200 phrase (Some p)" for p
        using Inr by (auto simp: send_def Let_def split: reply.splits if_splits)
      ultimately show ?thesis
        using adm cfg1 by auto
    qed
  qed
qed

text \<open>
  A short-circuited \<^verbatim>\<open>POST /expenses\<close>, and a first \<^verbatim>\<open>GET /settings\<close> that fills the cache.
\<close>

theorem dispatch_store_writes_witness:
  "circuitBreakers (tripped (request POST ''/expenses'')) (url (request POST ''/expenses'')) =
     Some \<lparr>state = OPEN, failureCount = 5, lastFailureTime = Some 0, lastSuccessTime = None\<rparr> \<and>
   \<not> shouldAttemptReset (t_request (instant 100))
       \<lparr>state = OPEN, failureCount = 5, lastFailureTime = Some 0, lastSuccessTime = None\<rparr> \<and>
   store (dispatch (tripped (request POST ''/expenses'')) (instant 100) (always NoReply)
            (request POST ''/expenses'')) = tripped (request POST ''/expenses'') \<and>
   responseCache (store (dispatch empty_dispatcher (instant 0)
        (always (Reply 200 ''OK'' (Some [(''success'', JBool True)]))) (request GET ''/settings''))) \<noteq>
     responseCache empty_dispatcher \<and>
   fst (request_interceptor empty_dispatcher (t_request (instant 0)) (request GET ''/settings'')) =
     Inr (request GET ''/settings'') \<and>
   method_of (request GET ''/settings'') = GET"
proof -
  let ?b = "\<lparr>state = OPEN, failureCount = 5, lastFailureTime = Some 0, lastSuccessTime = None\<rparr>"
  let ?net = "always (Reply 200 ''OK'' (Some [(''success'', JBool True)]))"
  have h1: "circuitBreakers (tripped (request POST ''/expenses'')) (url (request POST ''/expenses'')) = Some ?b"
    by code_simp
  have h2: "state ?b = OPEN" by simp
  have h3: "\<not> shouldAttemptReset (t_request (instant 100)) ?b" by code_simp
  have k: "responseCache (store (dispatch empty_dispatcher (instant 0) ?net (request GET ''/settings'')))
             (cacheKey GET ''/settings'') \<noteq> responseCache empty_dispatcher (cacheKey GET ''/settings'')"
    by code_simp
  then have h4: "responseCache (store (dispatch empty_dispatcher (instant 0) ?net (request GET ''/settings''))) \<noteq>
     responseCache empty_dispatcher"
    by metis
  show ?thesis
    using dispatch_store_writes [of "tripped (request POST ''/expenses'')" "request POST ''/expenses''"
            ?b "instant 100" "always NoReply"]
      dispatch_store_writes [of empty_dispatcher "request GET ''/settings''" ?b "instant 0" ?net]
      h1 h2 h3 h4
    by simp
qed

text \<open>
  Claim C9 as stated fails: the second successful \<^verbatim>\<open>GET /expenses\<close> changes the breaker
  (last success time), the throttle window (a new window) and the cache entry (a new
  timestamp) in one dispatch.
\<close>

theorem successful_get_writes_all_stores:
  "circuitBreakers
     (run empty_dispatcher
        [(instant 0, always (Reply 200 ''OK'' (Some [])), request GET ''/expenses'')]) ''/expenses'' \<noteq>
   circuitBreakers
     (run empty_dispatcher
        [(instant 0, always (Reply 200 ''OK'' (Some [])), request GET ''/expenses''),
         (instant 5000, always (Reply 200 ''OK'' (Some [])), request GET ''/expenses'')]) ''/expenses'' \<and>
   recentCalls
     (run empty_dispatcher
        [(instant 0, always (Reply 200 ''OK'' (Some [])), request GET ''/expenses'')]) ''/expenses'' \<noteq>
   recentCalls
     (run empty_dispatcher
        [(instant 0, always (Reply 200 ''OK'' (Some [])), request GET ''/expenses''),
         (instant 5000, always (Reply 200 ''OK'' (Some [])), request GET ''/expenses'')]) ''/expenses'' \<and>
   responseCache
     (run empty_dispatcher
        [(instant 0, always (Reply 200 ''OK'' (Some [])), request GET ''/expenses'')]) (cacheKey GET ''/expenses'') \<noteq>
   responseCache
     (run empty_dispatcher
        [(instant 0, always (Reply 200 ''OK'' (Some [])), request GET ''/expenses''),
         (instant 5000, always (Reply 200 ''OK'' (Some [])), request GET ''/expenses'')]) (cacheKey GET ''/expenses'')"
  by code_simp

subsection \<open>C10: the deprecated endpoint\<close>




end
